theory Spec2Isabelle
  imports Complex_Main
begin

section \<open>JavaScript values and the built-in conversions the server uses\<close>

text \<open>
  A field of a JSON request body is absent (\<open>JUndefined\<close>), \<open>null\<close>, a boolean, a number
  or a string. Numbers sent by a client are modelled as integers (the quantities, identifiers
  and bar codes the forms send); a price with a fraction is sent as a string such as
  \<open>''12.50''\<close>. Arrays and objects as field values are outside the model. A string is
  a list of bytes, and the white space that \<open>trim\<close>, \<open>parseInt\<close> and \<open>Number\<close> skip is
  the ASCII white space.

  A JavaScript number is a double. \<open>Num r\<close> is the finite double of value \<open>r\<close>,
  \<open>Infty True\<close> and \<open>Infty False\<close> are the two infinities, and \<open>NaN\<close> is the value
  that is not a number. Every conversion and every arithmetic operation on numbers rounds its
  exact result to the nearest double (\<open>toDouble\<close> below), as the machine does. Two things
  are not modelled: the sign of zero, and the rounding of quantities and identifiers, which
  are integers here and agree with the server below \<open>2 ^ 53\<close>. A price of \<open>Infinity\<close> is
  written to \<open>db.json\<close> as \<open>null\<close>, so the price of a book loaded from the file is finite
  or absent.
\<close>

datatype jsval = JUndefined | JNull | JBool bool | JNum int | JStr string

datatype jsnum = NaN | Num rat | Infty bool

text \<open>Truthiness, as \<open>if (x)\<close>, \<open>!x\<close> and \<open>x ? a : b\<close> read a value.\<close>

fun truthy :: "jsval \<Rightarrow> bool" where
  "truthy JUndefined = False"
| "truthy JNull = False"
| "truthy (JBool b) = b"
| "truthy (JNum n) = (n \<noteq> 0)"
| "truthy (JStr s) = (s \<noteq> [])"

text \<open>\<open>x != null && x !== ''\<close>: the guard in front of every \<open>Number\<close> and \<open>parseInt\<close>.\<close>

fun given :: "jsval \<Rightarrow> bool" where
  "given JUndefined = False"
| "given JNull = False"
| "given (JStr s) = (s \<noteq> [])"
| "given v = True"

subsection \<open>Rounding to a double\<close>

text \<open>
  A finite double is \<open>m * 2 ^ e\<close> with \<open>\<bar>m\<bar> < 2 ^ 53\<close> and \<open>- 1074 \<le> e \<le> 971\<close>. The
  double nearest to a rational is found from its binary exponent: \<open>binExp a\<close> is the
  \<open>k\<close> with \<open>2 ^ k \<le> a < 2 ^ (k + 1)\<close>, kept between \<open>- 1022\<close> (below it the doubles
  are equally spaced) and 1024 (there the result is infinite); \<open>ulp a\<close> is the distance
  between neighbouring doubles at \<open>a\<close>; a tie goes to the even neighbour.
\<close>

definition pow2 :: "int \<Rightarrow> rat" where
  "pow2 k = (if 0 \<le> k then 2 ^ nat k else 1 / 2 ^ nat (- k))"

definition roundHalfEven :: "rat \<Rightarrow> int" where
  "roundHalfEven x =
     (if x - of_int \<lfloor>x\<rfloor> < 1 / 2 then \<lfloor>x\<rfloor>
      else if 1 / 2 < x - of_int \<lfloor>x\<rfloor> then \<lfloor>x\<rfloor> + 1
      else if even \<lfloor>x\<rfloor> then \<lfloor>x\<rfloor> else \<lfloor>x\<rfloor> + 1)"

fun expUp :: "nat \<Rightarrow> rat \<Rightarrow> int" where
  "expUp n x = (if n = 0 \<or> x < 2 then 0 else expUp (n - 1) (x / 2) + 1)"

fun expDown :: "nat \<Rightarrow> rat \<Rightarrow> int" where
  "expDown n x = (if n = 0 \<or> 1 \<le> x then 0 else expDown (n - 1) (2 * x) - 1)"

declare expUp.simps [simp del] expDown.simps [simp del]

definition binExp :: "rat \<Rightarrow> int" where
  "binExp a = (if 1 \<le> a then expUp 1024 a else expDown 1022 a)"

definition ulp :: "rat \<Rightarrow> rat" where
  "ulp a = pow2 (binExp a - 52)"

definition nearest :: "rat \<Rightarrow> rat" where
  "nearest a = of_int (roundHalfEven (a / ulp a)) * ulp a"

definition toDouble :: "rat \<Rightarrow> jsnum" where
  "toDouble x =
     (if x = 0 then Num 0
      else if 2 ^ 1024 \<le> nearest \<bar>x\<bar> then Infty (0 < x)
      else Num (if x < 0 then - nearest \<bar>x\<bar> else nearest \<bar>x\<bar>))"

subsection \<open>Strings\<close>

definition isWhiteSpace :: "char \<Rightarrow> bool" where
  "isWhiteSpace c = (c \<in> set [CHR 0x09, CHR 0x0A, CHR 0x0B, CHR 0x0C, CHR 0x0D, CHR 0x20])"

text \<open>\<open>String.prototype.trim\<close> (on the ASCII white space characters).\<close>

definition trim :: "string \<Rightarrow> string" where
  "trim s = rev (dropWhile isWhiteSpace (rev (dropWhile isWhiteSpace s)))"

definition isDigit :: "char \<Rightarrow> bool" where
  "isDigit c = (48 \<le> (of_char c :: nat) \<and> (of_char c :: nat) \<le> 57)"

definition digitVal :: "char \<Rightarrow> nat" where
  "digitVal c = of_char c - 48"

definition digitChar :: "nat \<Rightarrow> char" where
  "digitChar d = ''0123456789'' ! d"

text \<open>The decimal digits of a natural number, as \<open>Number.prototype.toString\<close> prints them.\<close>

fun showNat :: "nat \<Rightarrow> string" where
  "showNat n = (if n < 10 then [digitChar n] else showNat (n div 10) @ [digitChar (n mod 10)])"

declare showNat.simps [simp del]

definition showInt :: "int \<Rightarrow> string" where
  "showInt n = (if n < 0 then CHR ''-'' # showNat (nat (- n)) else showNat (nat n))"

text \<open>\<open>String(x)\<close> and \<open>x.toString()\<close> on the values of the model.\<close>

fun js_String :: "jsval \<Rightarrow> string" where
  "js_String JUndefined = ''undefined''"
| "js_String JNull = ''null''"
| "js_String (JBool b) = (if b then ''true'' else ''false'')"
| "js_String (JNum n) = showInt n"
| "js_String (JStr s) = s"

text \<open>The value of a run of digits in a base.\<close>

definition digitsVal :: "nat \<Rightarrow> nat list \<Rightarrow> nat" where
  "digitsVal base ds = foldl (\<lambda>a d. base * a + d) 0 ds"

subsection \<open>\<open>parseInt(x, 10)\<close>\<close>

text \<open>
  \<open>parseInt\<close> converts its argument to a string, skips leading white space, reads an
  optional sign and then the longest run of decimal digits, ignoring whatever follows.
  With no digit the result is \<open>NaN\<close>, here \<open>None\<close>. With the radix given as 10 no
  \<open>0x\<close> prefix is recognised.
\<close>

definition parseInt_str :: "string \<Rightarrow> int option" where
  "parseInt_str s =
     (let s1 = dropWhile isWhiteSpace s;
          neg = (s1 \<noteq> [] \<and> hd s1 = CHR ''-'');
          s2 = (if s1 \<noteq> [] \<and> (hd s1 = CHR ''-'' \<or> hd s1 = CHR ''+'') then tl s1 else s1);
          ds = takeWhile isDigit s2
      in if ds = [] then None
         else Some ((if neg then - 1 else 1) * int (digitsVal 10 (map digitVal ds))))"

definition js_parseInt :: "jsval \<Rightarrow> int option" where
  "js_parseInt v = parseInt_str (js_String v)"

subsection \<open>\<open>Number(x)\<close>\<close>

definition isHexDigit :: "char \<Rightarrow> bool" where
  "isHexDigit c = (isDigit c \<or> (65 \<le> (of_char c :: nat) \<and> (of_char c :: nat) \<le> 70)
                    \<or> (97 \<le> (of_char c :: nat) \<and> (of_char c :: nat) \<le> 102))"

definition hexVal :: "char \<Rightarrow> nat" where
  "hexVal c = (if isDigit c then digitVal c
               else if (of_char c :: nat) \<le> 70 then of_char c - 55 else of_char c - 87)"

text \<open>\<open>0x\<close>, \<open>0o\<close> and \<open>0b\<close> literals: the digits after the two-character prefix.\<close>

definition nonDecimal :: "nat \<Rightarrow> string \<Rightarrow> jsnum" where
  "nonDecimal base ds =
     (if ds \<noteq> [] \<and> (\<forall>c \<in> set ds. isHexDigit c \<and> hexVal c < base)
      then toDouble (of_nat (digitsVal base (map hexVal ds))) else NaN)"

text \<open>The exponent part of a decimal literal: nothing, or \<open>e\<close> and a signed run of digits.\<close>

definition exponentPart :: "string \<Rightarrow> int option" where
  "exponentPart s =
     (if s = [] then Some 0
      else if hd s = CHR ''e'' \<or> hd s = CHR ''E'' then
        (let t = tl s;
             neg = (t \<noteq> [] \<and> hd t = CHR ''-'');
             ds = (if t \<noteq> [] \<and> (hd t = CHR ''-'' \<or> hd t = CHR ''+'') then tl t else t)
         in if ds \<noteq> [] \<and> (\<forall>c \<in> set ds. isDigit c)
            then Some ((if neg then - 1 else 1) * int (digitsVal 10 (map digitVal ds)))
            else None)
      else None)"

text \<open>An unsigned decimal literal: digits, an optional fraction, an optional exponent. The
  result is its exact value.\<close>

definition unsignedDecimal :: "string \<Rightarrow> rat option" where
  "unsignedDecimal s =
     (let ip = takeWhile isDigit s;
          r1 = dropWhile isDigit s;
          dot = (r1 \<noteq> [] \<and> hd r1 = CHR ''.'');
          fp = (if dot then takeWhile isDigit (tl r1) else []);
          r2 = (if dot then dropWhile isDigit (tl r1) else r1)
      in if ip = [] \<and> fp = [] then None
         else (case exponentPart r2 of
                 None \<Rightarrow> None
               | Some e \<Rightarrow>
                   Some (of_nat (digitsVal 10 (map digitVal (ip @ fp))) / 10 ^ length fp
                         * (if 0 \<le> e then 10 ^ nat e else 1 / 10 ^ nat (- e)))))"

definition Number_str :: "string \<Rightarrow> jsnum" where
  "Number_str s =
     (let t = trim s in
      if t = [] then Num 0
      else if take 2 t = ''0x'' \<or> take 2 t = ''0X'' then nonDecimal 16 (drop 2 t)
      else if take 2 t = ''0o'' \<or> take 2 t = ''0O'' then nonDecimal 8 (drop 2 t)
      else if take 2 t = ''0b'' \<or> take 2 t = ''0B'' then nonDecimal 2 (drop 2 t)
      else
        (let neg = (hd t = CHR ''-'');
             u = (if hd t = CHR ''-'' \<or> hd t = CHR ''+'' then tl t else t)
         in if u = ''Infinity'' then Infty (\<not> neg)
            else (case unsignedDecimal u of
                    None \<Rightarrow> NaN
                  | Some r \<Rightarrow> toDouble (if neg then - r else r))))"

fun js_Number :: "jsval \<Rightarrow> jsnum" where
  "js_Number JUndefined = NaN"
| "js_Number JNull = Num 0"
| "js_Number (JBool b) = Num (if b then 1 else 0)"
| "js_Number (JNum n) = toDouble (of_int n)"
| "js_Number (JStr s) = Number_str s"

subsection \<open>Arithmetic and comparison on numbers\<close>

definition isNaN :: "jsnum \<Rightarrow> bool" where
  "isNaN x = (x = NaN)"

text \<open>\<open>x < 0\<close>: false for \<open>NaN\<close>.\<close>

fun negative :: "jsnum \<Rightarrow> bool" where
  "negative NaN = False"
| "negative (Num r) = (r < 0)"
| "negative (Infty pos) = (\<not> pos)"

text \<open>\<open>x || 0\<close> on a number: \<open>NaN\<close> and zero are falsy.\<close>

definition orZero :: "jsnum \<Rightarrow> jsnum" where
  "orZero x = (if x = NaN \<or> x = Num 0 then Num 0 else x)"

text \<open>\<open>x || 0\<close> on an integer field.\<close>

definition or0 :: "int \<Rightarrow> int" where
  "or0 x = (if x = 0 then 0 else x)"

text \<open>\<open>price * qty\<close>, the quantity being an integer: the exact product, rounded.\<close>

fun times_qty :: "jsnum \<Rightarrow> int \<Rightarrow> jsnum" where
  "times_qty NaN q = NaN"
| "times_qty (Num r) q = toDouble (r * of_int q)"
| "times_qty (Infty pos) q = (if q = 0 then NaN else Infty (pos = (0 < q)))"

text \<open>\<open>a + b\<close> on numbers: the exact sum, rounded.\<close>

fun js_add :: "jsnum \<Rightarrow> jsnum \<Rightarrow> jsnum" where
  "js_add NaN y = NaN"
| "js_add x NaN = NaN"
| "js_add (Num a) (Num b) = toDouble (a + b)"
| "js_add (Num a) (Infty p) = Infty p"
| "js_add (Infty p) (Num b) = Infty p"
| "js_add (Infty p) (Infty q) = (if p = q then Infty p else NaN)"

section \<open>The snapshot\<close>

text \<open>
  The four collections of \<open>db.json\<close>, as the handlers create their entries. Quantities and
  identifiers are integers. A handler is a function from the loaded snapshot and the request
  body to the snapshot on disk afterwards and the response; a handler that answers before
  calling \<open>saveDb\<close> leaves the snapshot as it was. Time stamps are passed in.
\<close>

record book =
  b_id :: int
  b_barcode :: string
  b_title :: string
  b_author :: string
  b_publisher :: string
  b_shelf :: string
  b_price :: jsnum
  b_initial_qty :: int
  b_current_qty :: int

record seller =
  s_id :: int
  s_name :: string
  s_barcode :: string
  s_created_at :: string

datatype direction = TypeIn | TypeOut

text \<open>
  The note of a movement: the caller's text (incoming stock), or one of the three fixed texts
  of the server, two of which end with the seller's name.
\<close>

datatype mv_note = Note string | SaleNote string | QuickSaleNote string | ImportNote

record movement =
  m_id :: int
  m_type :: direction
  m_bookBarcode :: string
  m_qty :: int
  m_note :: mv_note
  m_date :: string

record sale =
  sl_id :: int
  sl_bookBarcode :: string
  sl_sellerBarcode :: string
  sl_qty :: int
  sl_total :: jsnum
  sl_date :: string

record db =
  books :: "book list"
  sellers :: "seller list"
  stockMovements :: "movement list"
  sales :: "sale list"

text \<open>
  The failures the handlers answer with, one constructor per message of the server, and the
  HTTP status each is sent with.
\<close>

datatype error =
    MissingTitle
  | InvalidPrice
  | InvalidInitialQty
  | UpdateBookNotFound
  | BarcodeExists
  | NothingToDelete
  | MissingSellerName
  | MissingSellerBarcode
  | SellerBarcodeExists
  | InvalidBarcodeOrQty
  | BookNotFound
  | InvalidSaleData
  | SellerNotFound
  | NotEnoughStock
  | MissingSellerCode
  | NoItems
  | InvalidItemRow nat
  | ItemBookNotFound string
  | ItemNotEnoughStock string
  | InvalidRows

fun status :: "error \<Rightarrow> nat" where
  "status UpdateBookNotFound = 404"
| "status BookNotFound = 404"
| "status SellerNotFound = 404"
| "status (ItemBookNotFound c) = 404"
| "status e = 400"

subsection \<open>Lookups and identifiers\<close>

text \<open>\<open>xs.find(P)\<close>, returning the position of the object found: the handlers go on to
  assign to its fields, which changes the element of the array.\<close>

fun findIndex :: "('a \<Rightarrow> bool) \<Rightarrow> 'a list \<Rightarrow> nat option" where
  "findIndex P [] = None"
| "findIndex P (x # xs) = (if P x then Some 0 else map_option Suc (findIndex P xs))"

text \<open>\<open>xs.length ? Math.max(...xs.map(x => x.id || 0)) + 1 : 1\<close>, on the list of the
  identifiers.\<close>

fun nextId :: "int list \<Rightarrow> int" where
  "nextId [] = 1"
| "nextId (x # xs) = fold max (map or0 xs) (or0 x) + 1"

text \<open>
  The generated bar code: \<open>B\<close>, the last eight digits of \<open>Date.now()\<close> and three random
  digits. The \<open>do ... while\<close> loop draws a clock value and a random number below 1000 on each
  round; the list holds the successive draws, and the loop has not ended when every listed
  draw collides with a bar code in use.
\<close>

definition last8 :: "string \<Rightarrow> string" where
  "last8 s = drop (length s - 8) s"

definition padStart3 :: "string \<Rightarrow> string" where
  "padStart3 s = replicate (3 - length s) (CHR ''0'') @ s"

definition newCode :: "nat \<times> nat \<Rightarrow> string" where
  "newCode c = CHR ''B'' # last8 (showNat (fst c)) @ padStart3 (showNat (snd c))"

fun genCode :: "(nat \<times> nat) list \<Rightarrow> book list \<Rightarrow> string option" where
  "genCode [] bs = None"
| "genCode (c # cs) bs =
     (if (\<exists>b \<in> set bs. b_barcode b = newCode c) then genCode cs bs else Some (newCode c))"

section \<open>Books\<close>

record book_body =
  bk_id :: jsval
  bk_barcode :: jsval
  bk_title :: jsval
  bk_author :: jsval
  bk_publisher :: jsval
  bk_shelf :: jsval
  bk_price :: jsval
  bk_initialQty :: jsval

record book_fields =
  f_barcode :: string
  f_title :: string
  f_author :: string
  f_publisher :: string
  f_shelf :: string
  f_price :: jsnum
  f_initialQty :: int

text \<open>\<open>POST /api/books\<close>, first part: the fields are read and checked, for an update as for
  a creation.\<close>

definition parseBookFields :: "book_body \<Rightarrow> error + book_fields" where
  "parseBookFields body =
     (if \<not> truthy (bk_title body) \<or> trim (js_String (bk_title body)) = [] then Inl MissingTitle
      else
        let title = trim (js_String (bk_title body));
            author = (if truthy (bk_author body) then js_String (bk_author body) else []);
            publisher = (if truthy (bk_publisher body) then js_String (bk_publisher body) else []);
            shelf = (if truthy (bk_shelf body) then js_String (bk_shelf body) else []);
            price = (if given (bk_price body) then js_Number (bk_price body) else Num 0)
        in if isNaN price \<or> negative price then Inl InvalidPrice
           else
             (case (if given (bk_initialQty body) then js_parseInt (bk_initialQty body) else Some 0) of
                None \<Rightarrow> Inl InvalidInitialQty
              | Some initialQty \<Rightarrow>
                  if initialQty < 0 then Inl InvalidInitialQty
                  else Inr \<lparr> f_barcode = (if truthy (bk_barcode body)
                                            then trim (js_String (bk_barcode body)) else []),
                             f_title = title, f_author = author, f_publisher = publisher,
                             f_shelf = shelf, f_price = price, f_initialQty = initialQty \<rparr>))"

text \<open>The update of an existing book (the body has a truthy \<open>id\<close>).\<close>

definition updateBook :: "db \<Rightarrow> jsval \<Rightarrow> book_fields \<Rightarrow> db \<times> (error + book)" where
  "updateBook d idv f =
     (let bs = books d; idn = js_Number idv in
      case findIndex (\<lambda>b. Num (of_int (b_id b)) = idn) bs of
        None \<Rightarrow> (d, Inl UpdateBookNotFound)
      | Some i \<Rightarrow>
          let existing = bs ! i in
          if f_barcode f \<noteq> [] \<and> f_barcode f \<noteq> b_barcode existing
             \<and> (\<exists>b \<in> set bs. b_barcode b = f_barcode f)
          then (d, Inl BarcodeExists)
          else
            let barcode = (if f_barcode f = [] then b_barcode existing else f_barcode f);
                existing' = existing \<lparr> b_title := f_title f, b_author := f_author f,
                                       b_publisher := f_publisher f, b_shelf := f_shelf f,
                                       b_price := f_price f, b_barcode := barcode \<rparr>
            in (d \<lparr> books := bs [i := existing'] \<rparr>, Inr existing'))"

text \<open>The creation of a new book. The result is \<open>None\<close> while the loop that generates a
  bar code has not ended.\<close>

definition createBook ::
    "(nat \<times> nat) list \<Rightarrow> db \<Rightarrow> book_fields \<Rightarrow> (db \<times> (error + book)) option" where
  "createBook gen d f =
     (let bs = books d in
      if f_barcode f \<noteq> [] \<and> (\<exists>b \<in> set bs. b_barcode b = f_barcode f)
      then Some (d, Inl BarcodeExists)
      else
        (case (if f_barcode f = [] then genCode gen bs else Some (f_barcode f)) of
           None \<Rightarrow> None
         | Some barcode \<Rightarrow>
             let newBook = \<lparr> b_id = nextId (map b_id bs), b_barcode = barcode,
                             b_title = f_title f, b_author = f_author f,
                             b_publisher = f_publisher f, b_shelf = f_shelf f,
                             b_price = f_price f, b_initial_qty = f_initialQty f,
                             b_current_qty = f_initialQty f \<rparr>
             in Some (d \<lparr> books := bs @ [newBook] \<rparr>, Inr newBook)))"

definition booksPost ::
    "(nat \<times> nat) list \<Rightarrow> db \<Rightarrow> book_body \<Rightarrow> (db \<times> (error + book)) option" where
  "booksPost gen d body =
     (case parseBookFields body of
        Inl e \<Rightarrow> Some (d, Inl e)
      | Inr f \<Rightarrow> if truthy (bk_id body) then Some (updateBook d (bk_id body) f)
                 else createBook gen d f)"

text \<open>\<open>POST /api/books/delete\<close>. The body's \<open>ids\<close> is \<open>None\<close> when it is not an array. The
  response carries \<open>deletedCount\<close>.\<close>

definition booksDelete :: "db \<Rightarrow> jsval list option \<Rightarrow> db \<times> (error + int)" where
  "booksDelete d ids =
     (case ids of
        None \<Rightarrow> (d, Inl NothingToDelete)
      | Some xs \<Rightarrow>
          if xs = [] then (d, Inl NothingToDelete)
          else
            let bs = books d;
                before = length bs;
                idSet = set (map js_Number xs);
                bs' = filter (\<lambda>b. Num (of_int (b_id b)) \<notin> idSet) bs
            in (d \<lparr> books := bs' \<rparr>, Inr (int before - int (length bs'))))"

section \<open>Sellers\<close>

record seller_body =
  sb_name :: jsval
  sb_barcode :: jsval

definition sellersPost :: "string \<Rightarrow> db \<Rightarrow> seller_body \<Rightarrow> db \<times> (error + seller)" where
  "sellersPost now d body =
     (let ss = sellers d;
          name = (if truthy (sb_name body) then trim (js_String (sb_name body)) else []);
          barcode = (if truthy (sb_barcode body) then trim (js_String (sb_barcode body)) else [])
      in if name = [] then (d, Inl MissingSellerName)
         else if barcode = [] then (d, Inl MissingSellerBarcode)
         else if (\<exists>s \<in> set ss. s_barcode s = barcode) then (d, Inl SellerBarcodeExists)
         else
           let seller = \<lparr> s_id = nextId (map s_id ss), s_name = name, s_barcode = barcode,
                          s_created_at = now \<rparr>
           in (d \<lparr> sellers := ss @ [seller] \<rparr>, Inr seller))"

section \<open>Stock movements\<close>

record stockin_body =
  in_barcode :: jsval
  in_qty :: jsval
  in_note :: jsval

text \<open>\<open>POST /api/stock/in\<close>: incoming stock for the book with the bar code.\<close>

definition stockIn :: "string \<Rightarrow> db \<Rightarrow> stockin_body \<Rightarrow> db \<times> (error + book)" where
  "stockIn now d body =
     (let barcode = (if truthy (in_barcode body) then trim (js_String (in_barcode body)) else [])
      in case (if given (in_qty body) then js_parseInt (in_qty body) else Some 0) of
           None \<Rightarrow> (d, Inl InvalidBarcodeOrQty)
         | Some qty \<Rightarrow>
             if barcode = [] \<or> qty \<le> 0 then (d, Inl InvalidBarcodeOrQty)
             else
               let bs = books d in
               (case findIndex (\<lambda>b. b_barcode b = barcode) bs of
                  None \<Rightarrow> (d, Inl BookNotFound)
                | Some i \<Rightarrow>
                    let book = (bs ! i) \<lparr> b_current_qty := or0 (b_current_qty (bs ! i)) + qty \<rparr>;
                        movements = stockMovements d;
                        movements' = movements @
                          [\<lparr> m_id = nextId (map m_id movements), m_type = TypeIn, m_bookBarcode = barcode, m_qty = qty,
                             m_note = Note (if truthy (in_note body)
                                            then js_String (in_note body) else []),
                             m_date = now \<rparr>]
                    in (d \<lparr> books := bs [i := book], stockMovements := movements' \<rparr>, Inr book)))"

section \<open>Sales\<close>

record sale_body =
  sale_bookBarcode :: jsval
  sale_sellerBarcode :: jsval
  sale_qty :: jsval

record sale_result =
  r_bookTitle :: string
  r_sellerName :: string
  r_qty :: int
  r_total :: jsnum

text \<open>\<open>POST /api/stock/sale\<close>: the sale of one book.\<close>

definition stockSale :: "string \<Rightarrow> db \<Rightarrow> sale_body \<Rightarrow> db \<times> (error + sale_result)" where
  "stockSale now d body =
     (let bookBarcode = (if truthy (sale_bookBarcode body)
                         then trim (js_String (sale_bookBarcode body)) else []);
          sellerBarcode = (if truthy (sale_sellerBarcode body)
                           then trim (js_String (sale_sellerBarcode body)) else [])
      in case (if given (sale_qty body) then js_parseInt (sale_qty body) else Some 0) of
           None \<Rightarrow> (d, Inl InvalidSaleData)
         | Some qty \<Rightarrow>
             if bookBarcode = [] \<or> sellerBarcode = [] \<or> qty \<le> 0 then (d, Inl InvalidSaleData)
             else
               let bs = books d; ss = sellers d in
               (case findIndex (\<lambda>b. b_barcode b = bookBarcode) bs of
                  None \<Rightarrow> (d, Inl BookNotFound)
                | Some i \<Rightarrow>
                    (case findIndex (\<lambda>s. s_barcode s = sellerBarcode) ss of
                       None \<Rightarrow> (d, Inl SellerNotFound)
                     | Some j \<Rightarrow>
                         let book = bs ! i;
                             seller = ss ! j;
                             currentQty = or0 (b_current_qty book)
                         in if currentQty < qty then (d, Inl NotEnoughStock)
                            else
                              let price = orZero (b_price book);
                                  total = times_qty price qty;
                                  book' = book \<lparr> b_current_qty := currentQty - qty \<rparr>;
                                  movements = stockMovements d;
                                  nextMoveId = nextId (map m_id movements);
                                  movements' = movements @
                                    [\<lparr> m_id = nextMoveId, m_type = TypeOut,
                                       m_bookBarcode = bookBarcode, m_qty = qty,
                                       m_note = SaleNote (s_name seller), m_date = now \<rparr>];
                                  sales0 = sales d;
                                  nextSaleId = nextId (map sl_id sales0);
                                  sales' = sales0 @
                                    [\<lparr> sl_id = nextSaleId, sl_bookBarcode = bookBarcode,
                                       sl_sellerBarcode = sellerBarcode, sl_qty = qty,
                                       sl_total = total, sl_date = now \<rparr>]
                              in (d \<lparr> books := bs [i := book'], stockMovements := movements',
                                       sales := sales' \<rparr>,
                                  Inr \<lparr> r_bookTitle = b_title book', r_sellerName = s_name seller,
                                        r_qty = qty, r_total = total \<rparr>))))"

subsection \<open>The sale of several books\<close>

text \<open>An entry of \<open>items\<close> is \<open>None\<close> when it is \<open>null\<close>; the handler reads it as \<open>{}\<close>.\<close>

record item =
  it_barcode :: jsval
  it_qty :: jsval

record quick_body =
  qk_sellerBarcode :: jsval
  qk_items :: "item option list option"

text \<open>A checked item: the book object found (its position in \<open>books\<close>), the bar code and
  the quantity.\<close>

record norm_item =
  n_book :: nat
  n_barcode :: string
  n_qty :: int

record quick_result =
  q_totalAmount :: jsnum
  q_totalQty :: int
  q_itemsCount :: nat

definition emptyItem :: item where
  "emptyItem = \<lparr> it_barcode = JUndefined, it_qty = JUndefined \<rparr>"

text \<open>\<open>(item.barcode || '').toString().trim()\<close> and the quantity read from an item, \<open>None\<close>
  for \<open>NaN\<close>.\<close>

definition itemBarcode :: "item option \<Rightarrow> string" where
  "itemBarcode x =
     (let item = (case x of None \<Rightarrow> emptyItem | Some y \<Rightarrow> y)
      in if truthy (it_barcode item) then trim (js_String (it_barcode item)) else [])"

definition itemQty :: "item option \<Rightarrow> int option" where
  "itemQty x =
     (let item = (case x of None \<Rightarrow> emptyItem | Some y \<Rightarrow> y)
      in if given (it_qty item) then js_parseInt (it_qty item) else Some 0)"

text \<open>The first loop: every item is checked against the books as loaded, from index \<open>i\<close>
  on; the first item that fails ends the request.\<close>

fun validateItems :: "book list \<Rightarrow> nat \<Rightarrow> item option list \<Rightarrow> error + norm_item list" where
  "validateItems bs i [] = Inr []"
| "validateItems bs i (x # xs) =
     (let barcode = itemBarcode x in
      case itemQty x of
        None \<Rightarrow> Inl (InvalidItemRow (i + 1))
      | Some qty \<Rightarrow>
          if barcode = [] \<or> qty \<le> 0 then Inl (InvalidItemRow (i + 1))
          else
            (case findIndex (\<lambda>b. b_barcode b = barcode) bs of
               None \<Rightarrow> Inl (ItemBookNotFound barcode)
             | Some k \<Rightarrow>
                 if or0 (b_current_qty (bs ! k)) < qty
                 then Inl (ItemNotEnoughStock (b_title (bs ! k)))
                 else
                   (case validateItems bs (i + 1) xs of
                      Inl e \<Rightarrow> Inl e
                    | Inr ns \<Rightarrow>
                        Inr (\<lparr> n_book = k, n_barcode = barcode, n_qty = qty \<rparr> # ns))))"

text \<open>The second loop: the state it updates, and its body for one checked item.\<close>

record quick_state =
  qs_books :: "book list"
  qs_movements :: "movement list"
  qs_sales :: "sale list"
  qs_nextMoveId :: int
  qs_nextSaleId :: int
  qs_totalAmount :: jsnum
  qs_totalQty :: int

definition applyItem :: "string \<Rightarrow> string \<Rightarrow> string \<Rightarrow> norm_item \<Rightarrow> quick_state \<Rightarrow> quick_state" where
  "applyItem now sellerName sellerCode n st =
     (let book = qs_books st ! n_book n;
          price = orZero (b_price book);
          rowTotal = times_qty price (n_qty n)
      in \<lparr> qs_books = (qs_books st)
              [n_book n := book \<lparr> b_current_qty := or0 (b_current_qty book) - n_qty n \<rparr>],
            qs_movements = qs_movements st @
              [\<lparr> m_id = qs_nextMoveId st, m_type = TypeOut, m_bookBarcode = n_barcode n,
                 m_qty = n_qty n, m_note = QuickSaleNote sellerName, m_date = now \<rparr>],
            qs_sales = qs_sales st @
              [\<lparr> sl_id = qs_nextSaleId st, sl_bookBarcode = n_barcode n,
                 sl_sellerBarcode = sellerCode, sl_qty = n_qty n, sl_total = rowTotal,
                 sl_date = now \<rparr>],
            qs_nextMoveId = qs_nextMoveId st + 1,
            qs_nextSaleId = qs_nextSaleId st + 1,
            qs_totalAmount = js_add (qs_totalAmount st) rowTotal,
            qs_totalQty = qs_totalQty st + n_qty n \<rparr>)"

text \<open>\<open>POST /api/sales/quick\<close>.\<close>

definition salesQuick :: "string \<Rightarrow> db \<Rightarrow> quick_body \<Rightarrow> db \<times> (error + quick_result)" where
  "salesQuick now d body =
     (let sellerCode = (if truthy (qk_sellerBarcode body)
                        then trim (js_String (qk_sellerBarcode body)) else [])
      in if sellerCode = [] then (d, Inl MissingSellerCode)
         else
           (case qk_items body of
              None \<Rightarrow> (d, Inl NoItems)
            | Some items \<Rightarrow>
                if items = [] then (d, Inl NoItems)
                else
                  (case findIndex (\<lambda>s. s_barcode s = sellerCode) (sellers d) of
                     None \<Rightarrow> (d, Inl SellerNotFound)
                   | Some j \<Rightarrow>
                       (case validateItems (books d) 0 items of
                          Inl e \<Rightarrow> (d, Inl e)
                        | Inr normalizedItems \<Rightarrow>
                            let st = fold (applyItem now (s_name (sellers d ! j)) sellerCode)
                                       normalizedItems
                                       \<lparr> qs_books = books d,
                                         qs_movements = stockMovements d,
                                         qs_sales = sales d,
                                         qs_nextMoveId = nextId (map m_id (stockMovements d)),
                                         qs_nextSaleId = nextId (map sl_id (sales d)),
                                         qs_totalAmount = Num 0,
                                         qs_totalQty = 0 \<rparr>
                            in (d \<lparr> books := qs_books st, stockMovements := qs_movements st,
                                     sales := qs_sales st \<rparr>,
                                Inr \<lparr> q_totalAmount = qs_totalAmount st,
                                      q_totalQty = qs_totalQty st,
                                      q_itemsCount = length normalizedItems \<rparr>)))))"

section \<open>Import\<close>

text \<open>A row of the import is \<open>None\<close> when it is \<open>null\<close>.\<close>

record row =
  row_barcode :: jsval
  row_title :: jsval
  row_author :: jsval
  row_publisher :: jsval
  row_shelf :: jsval
  row_price :: jsval
  row_initialQty :: jsval

text \<open>The messages collected in \<open>errors\<close>, each with the number of its row.\<close>

datatype row_error =
    RowMissingTitle nat
  | RowMissingBarcode nat
  | RowInvalidPrice nat
  | RowInvalidInitialQty nat

record import_state =
  im_books :: "book list"
  im_movements :: "movement list"
  im_nextBookId :: int
  im_nextMoveId :: int
  im_insertedCount :: nat
  im_skippedExisting :: nat
  im_errors :: "row_error list"

text \<open>The values the loop body reads from a row: the trimmed title and bar code, the
  price, and the initial quantity (\<open>None\<close> for \<open>NaN\<close>).\<close>

definition rowTitle :: "row \<Rightarrow> string" where
  "rowTitle row = (if truthy (row_title row) then trim (js_String (row_title row)) else [])"

definition rowBarcode :: "row \<Rightarrow> string" where
  "rowBarcode row = (if truthy (row_barcode row) then trim (js_String (row_barcode row)) else [])"

definition rowPrice :: "row \<Rightarrow> jsnum" where
  "rowPrice row = (if given (row_price row) then js_Number (row_price row) else Num 0)"

definition rowInitialQty :: "row \<Rightarrow> int option" where
  "rowInitialQty row =
     (if given (row_initialQty row) then js_parseInt (row_initialQty row) else Some 0)"

text \<open>
  The body of \<open>rows.forEach\<close> for the row at \<open>index\<close>; \<open>clock\<close> gives the time stamp
  taken at a row. A row that passes every check is inserted: the book is pushed with the
  next book identifier, a movement is pushed with the next movement identifier when the
  initial quantity is positive, and \<open>insertedCount\<close> is incremented.
\<close>

definition importRow :: "(nat \<Rightarrow> string) \<Rightarrow> nat \<Rightarrow> row option \<Rightarrow> import_state \<Rightarrow> import_state" where
  "importRow clock index r st =
     (case r of
        None \<Rightarrow> st
      | Some row \<Rightarrow>
          if rowTitle row = []
          then st \<lparr> im_errors := im_errors st @ [RowMissingTitle (index + 1)] \<rparr>
          else if rowBarcode row = []
          then st \<lparr> im_errors := im_errors st @ [RowMissingBarcode (index + 1)] \<rparr>
          else if (\<exists>b \<in> set (im_books st). b_barcode b = rowBarcode row)
          then st \<lparr> im_skippedExisting := im_skippedExisting st + 1 \<rparr>
          else if isNaN (rowPrice row) \<or> negative (rowPrice row)
          then st \<lparr> im_errors := im_errors st @ [RowInvalidPrice (index + 1)] \<rparr>
          else
            (case rowInitialQty row of
               None \<Rightarrow> st \<lparr> im_errors := im_errors st @ [RowInvalidInitialQty (index + 1)] \<rparr>
             | Some initialQty \<Rightarrow>
                 if initialQty < 0
                 then st \<lparr> im_errors := im_errors st @ [RowInvalidInitialQty (index + 1)] \<rparr>
                 else
                   st \<lparr> im_books := im_books st @
                          [\<lparr> b_id = im_nextBookId st, b_barcode = rowBarcode row,
                             b_title = rowTitle row,
                             b_author = (if truthy (row_author row)
                                         then js_String (row_author row) else []),
                             b_publisher = (if truthy (row_publisher row)
                                            then js_String (row_publisher row) else []),
                             b_shelf = (if truthy (row_shelf row)
                                        then js_String (row_shelf row) else []),
                             b_price = rowPrice row, b_initial_qty = initialQty,
                             b_current_qty = initialQty \<rparr>],
                        im_nextBookId := im_nextBookId st + 1,
                        im_movements :=
                          (if 0 < initialQty
                           then im_movements st @
                                  [\<lparr> m_id = im_nextMoveId st, m_type = TypeIn,
                                     m_bookBarcode = rowBarcode row, m_qty = initialQty,
                                     m_note = ImportNote, m_date = clock index \<rparr>]
                           else im_movements st),
                        im_nextMoveId :=
                          (if 0 < initialQty then im_nextMoveId st + 1 else im_nextMoveId st),
                        im_insertedCount := im_insertedCount st + 1 \<rparr>))"

fun importRows :: "(nat \<Rightarrow> string) \<Rightarrow> nat \<Rightarrow> row option list \<Rightarrow> import_state \<Rightarrow> import_state" where
  "importRows clock index [] st = st"
| "importRows clock index (r # rs) st = importRows clock (index + 1) rs (importRow clock index r st)"

record import_result =
  ir_insertedCount :: nat
  ir_skippedExisting :: nat
  ir_errors :: "row_error list"

text \<open>\<open>POST /api/import/books-tsv\<close>. The body's \<open>rows\<close> is \<open>None\<close> when it is not an
  array.\<close>

definition importBooksTsv ::
    "(nat \<Rightarrow> string) \<Rightarrow> db \<Rightarrow> row option list option \<Rightarrow> db \<times> (error + import_result)" where
  "importBooksTsv clock d rows =
     (case rows of
        None \<Rightarrow> (d, Inl InvalidRows)
      | Some rs \<Rightarrow>
          let st = importRows clock 0 rs
                     \<lparr> im_books = books d, im_movements = stockMovements d,
                       im_nextBookId = nextId (map b_id (books d)),
                       im_nextMoveId = nextId (map m_id (stockMovements d)),
                       im_insertedCount = 0, im_skippedExisting = 0, im_errors = [] \<rparr>
          in (d \<lparr> books := im_books st, stockMovements := im_movements st \<rparr>,
              Inr \<lparr> ir_insertedCount = im_insertedCount st,
                    ir_skippedExisting = im_skippedExisting st,
                    ir_errors = im_errors st \<rparr>))"

section \<open>Notions used to state the properties\<close>

text \<open>
  Identifiers allocated one after another: \<open>new ! k\<close> is the next identifier of a
  collection whose identifiers are \<open>old\<close> followed by the first \<open>k\<close> of \<open>new\<close>.
\<close>

definition allocated :: "int list \<Rightarrow> int list \<Rightarrow> bool" where
  "allocated old new = (\<forall>k < length new. new ! k = nextId (old @ take k new))"





text \<open>The request to \<open>POST /api/books\<close> that carries the fields of an import row and no
  identifier.\<close>

definition rowBody :: "row \<Rightarrow> book_body" where
  "rowBody r = \<lparr> bk_id = JUndefined, bk_barcode = row_barcode r, bk_title = row_title r,
                 bk_author = row_author r, bk_publisher = row_publisher r,
                 bk_shelf = row_shelf r, bk_price = row_price r,
                 bk_initialQty = row_initialQty r \<rparr>"

section \<open>Example snapshots\<close>

text \<open>A small shop, used to run the handlers on concrete requests.\<close>

definition emptyDb :: db where
  "emptyDb = \<lparr> books = [], sellers = [], stockMovements = [], sales = [] \<rparr>"

definition ex_bookA :: book where
  "ex_bookA = \<lparr> b_id = 1, b_barcode = ''A'', b_title = ''Alpha'', b_author = [],
                 b_publisher = [], b_shelf = [], b_price = Num 10,
                 b_initial_qty = 5, b_current_qty = 5 \<rparr>"

definition ex_bookB :: book where
  "ex_bookB = \<lparr> b_id = 2, b_barcode = ''B'', b_title = ''Beta'', b_author = [],
                 b_publisher = [], b_shelf = [], b_price = Num 3,
                 b_initial_qty = 0, b_current_qty = 0 \<rparr>"

definition ex_seller :: seller where
  "ex_seller = \<lparr> s_id = 1, s_name = ''Sam'', s_barcode = ''S'', s_created_at = ''t0'' \<rparr>"

definition ex_shop :: db where
  "ex_shop = \<lparr> books = [ex_bookA, ex_bookB], sellers = [ex_seller],
                stockMovements = [], sales = [] \<rparr>"

text \<open>A book whose price is the double nearest to 0.1.\<close>

definition ex_dime :: book where
  "ex_dime = \<lparr> b_id = 3, b_barcode = ''C'', b_title = ''Gamma'', b_author = [],
                b_publisher = [], b_shelf = [], b_price = js_Number (JStr ''0.1''),
                b_initial_qty = 3, b_current_qty = 3 \<rparr>"

text \<open>The shop after an earlier import of its first book: one movement, with the
  identifier 7.\<close>

definition ex_moved :: db where
  "ex_moved = ex_shop \<lparr> stockMovements :=
       [\<lparr> m_id = 7, m_type = TypeIn, m_bookBarcode = ''A'', m_qty = 5, m_note = ImportNote,
          m_date = ''t0'' \<rparr>] \<rparr>"




text \<open>Requests to \<open>POST /api/books\<close>.\<close>

definition ex_update :: book_body where
  "ex_update = \<lparr> bk_id = JNum 1, bk_barcode = JStr '' '', bk_title = JStr ''Alpha 2'',
                  bk_author = JUndefined, bk_publisher = JUndefined, bk_shelf = JUndefined,
                  bk_price = JStr ''12.50'', bk_initialQty = JStr ''99'' \<rparr>"

definition ex_create :: "jsval \<Rightarrow> jsval \<Rightarrow> jsval \<Rightarrow> jsval \<Rightarrow> book_body" where
  "ex_create barcode title price initialQty =
     \<lparr> bk_id = JUndefined, bk_barcode = barcode, bk_title = title,
       bk_author = JUndefined, bk_publisher = JUndefined, bk_shelf = JUndefined,
       bk_price = price, bk_initialQty = initialQty \<rparr>"

text \<open>Requests to \<open>POST /api/stock/sale\<close> and \<open>POST /api/sales/quick\<close>.\<close>

definition ex_sale :: "string \<Rightarrow> int \<Rightarrow> sale_body" where
  "ex_sale code qty =
     \<lparr> sale_bookBarcode = JStr code, sale_sellerBarcode = JStr ''S'', sale_qty = JNum qty \<rparr>"

definition ex_quick :: "(string \<times> int) list \<Rightarrow> quick_body" where
  "ex_quick xs =
     \<lparr> qk_sellerBarcode = JStr ''S'',
       qk_items = Some (map (\<lambda>(c, q). Some \<lparr> it_barcode = JStr c, it_qty = JNum q \<rparr>) xs) \<rparr>"

text \<open>Rows of an import, and the state of the import loop in front of the example
  shop.\<close>

definition ex_row :: "jsval \<Rightarrow> jsval \<Rightarrow> jsval \<Rightarrow> jsval \<Rightarrow> row" where
  "ex_row barcode title price initialQty =
     \<lparr> row_barcode = barcode, row_title = title, row_author = JUndefined,
       row_publisher = JUndefined, row_shelf = JUndefined, row_price = price,
       row_initialQty = initialQty \<rparr>"

definition ex_state :: import_state where
  "ex_state = \<lparr> im_books = [ex_bookA, ex_bookB], im_movements = [], im_nextBookId = 3,
                 im_nextMoveId = 1, im_insertedCount = 0, im_skippedExisting = 0,
                 im_errors = [] \<rparr>"

section \<open>Properties\<close>

subsection \<open>Auxiliary facts\<close>

text \<open>The definitions to unfold when a handler is run on a concrete request.\<close>

lemma floor_rat_numeral_div: "\<lfloor>(numeral a :: rat) / numeral b\<rfloor> = numeral a div numeral b"
  by (metis floor_divide_of_int_eq of_int_numeral)

lemmas js_eval = Number_str_def trim_def isWhiteSpace_def unsignedDecimal_def exponentPart_def
  nonDecimal_def isHexDigit_def hexVal_def isDigit_def digitVal_def digitsVal_def
  js_parseInt_def parseInt_str_def showInt_def showNat.simps digitChar_def isNaN_def
  orZero_def Let_def toDouble_def nearest_def ulp_def binExp_def expUp.simps expDown.simps
  roundHalfEven_def pow2_def floor_rat_numeral_div

lemmas ex_defs = ex_shop_def ex_bookA_def ex_bookB_def ex_seller_def emptyDb_def
  ex_update_def ex_create_def ex_sale_def ex_quick_def ex_row_def ex_state_def

lemmas row_defs = rowTitle_def rowBarcode_def rowPrice_def rowInitialQty_def rowBody_def

lemma or0_id [simp]: "or0 x = x"
  by (simp add: or0_def)

lemma findIndex_Some:
  "findIndex P xs = Some i \<Longrightarrow> i < length xs \<and> P (xs ! i) \<and> (\<forall>j < i. \<not> P (xs ! j))"
proof (induction xs arbitrary: i)
  case Nil
  then show ?case by simp
next
  case (Cons x xs)
  show ?case
  proof (cases "P x")
    case True
    with Cons.prems show ?thesis by simp
  next
    case False
    with Cons.prems obtain k where k: "findIndex P xs = Some k" "i = Suc k"
      by auto
    from Cons.IH [OF k(1)] False k(2) show ?thesis
      by (auto simp: less_Suc_eq_0_disj)
  qed
qed

lemma findIndex_None: "findIndex P xs = None \<longleftrightarrow> (\<forall>x \<in> set xs. \<not> P x)"
  by (induction xs) auto

lemma parseBookFields_Inr:
  "parseBookFields body = Inr f \<Longrightarrow>
     f_barcode f = (if truthy (bk_barcode body) then trim (js_String (bk_barcode body)) else [])"
  by (auto simp: parseBookFields_def Let_def split: if_splits option.splits)


lemma times_qty_orZero: "p \<noteq> NaN \<Longrightarrow> times_qty (orZero p) q = times_qty p q"
  by (cases p) (auto simp: orZero_def)

lemma map_or0 [simp]: "map or0 xs = xs"
  by (induction xs) simp_all

lemma nextId_Max: "nextId ids = (if ids = [] then 1 else Max (set ids) + 1)"
proof (cases ids)
  case Nil
  then show ?thesis by simp
next
  case (Cons x xs)
  have "Max (set (x # xs)) = fold max xs x"
    by (rule Max.set_eq_fold)
  with Cons show ?thesis by simp
qed

lemma nextId_snoc: "nextId (ids @ [nextId ids]) = nextId ids + 1"
proof (cases "ids = []")
  case True
  then show ?thesis by simp
next
  case False
  then have "Max (set (ids @ [Max (set ids) + 1])) = Max (set ids) + 1"
    by (simp add: max_def)
  with False show ?thesis by (simp add: nextId_Max)
qed

lemma allocated_Nil [simp]: "allocated old []"
  by (simp add: allocated_def)

lemma allocated_snoc:
  "allocated old (new @ [n]) \<longleftrightarrow> allocated old new \<and> n = nextId (old @ new)"
  by (auto simp: allocated_def less_Suc_eq nth_append)

lemma fold_applyItem:
  assumes "qs_nextMoveId st = nextId (map m_id (qs_movements st))"
      and "qs_nextSaleId st = nextId (map sl_id (qs_sales st))"
      and "qs_movements st = ms0 @ ms" "allocated (map m_id ms0) (map m_id ms)"
      and "qs_sales st = ss0 @ ss" "allocated (map sl_id ss0) (map sl_id ss)"
  shows "\<exists>ms' ss'. qs_movements (fold (applyItem now sn sc) ns st) = ms0 @ ms'
           \<and> allocated (map m_id ms0) (map m_id ms')
           \<and> qs_sales (fold (applyItem now sn sc) ns st) = ss0 @ ss'
           \<and> allocated (map sl_id ss0) (map sl_id ss')
           \<and> length ms' = length ms + length ns \<and> length ss' = length ss + length ns"
  using assms
proof (induction ns arbitrary: st ms ss)
  case Nil
  then show ?case by auto
next
  case (Cons n ns)
  let ?st = "applyItem now sn sc n st"
  let ?m = "\<lparr> m_id = qs_nextMoveId st, m_type = TypeOut, m_bookBarcode = n_barcode n,
                 m_qty = n_qty n, m_note = QuickSaleNote sn, m_date = now \<rparr>"
  let ?s = "\<lparr> sl_id = qs_nextSaleId st, sl_bookBarcode = n_barcode n,
                 sl_sellerBarcode = sc, sl_qty = n_qty n,
                 sl_total = times_qty (orZero (b_price (qs_books st ! n_book n))) (n_qty n),
                 sl_date = now \<rparr>"
  have m: "qs_movements ?st = ms0 @ (ms @ [?m])" and s: "qs_sales ?st = ss0 @ (ss @ [?s])"
    using Cons.prems by (simp_all add: applyItem_def Let_def)
  have nm: "qs_nextMoveId ?st = nextId (map m_id (qs_movements ?st))"
    using Cons.prems(1) nextId_snoc [of "map m_id (qs_movements st)"]
    by (simp add: applyItem_def Let_def)
  have ns': "qs_nextSaleId ?st = nextId (map sl_id (qs_sales ?st))"
    using Cons.prems(2) nextId_snoc [of "map sl_id (qs_sales st)"]
    by (simp add: applyItem_def Let_def)
  have am: "allocated (map m_id ms0) (map m_id (ms @ [?m]))"
    using Cons.prems by (simp add: allocated_snoc)
  have as: "allocated (map sl_id ss0) (map sl_id (ss @ [?s]))"
    using Cons.prems by (simp add: allocated_snoc)
  from Cons.IH [OF nm ns' m am s as] show ?case by auto
qed


lemma importRow_cases:
  "(im_books (importRow clock i r st) = im_books st
      \<and> im_movements (importRow clock i r st) = im_movements st
      \<and> im_nextBookId (importRow clock i r st) = im_nextBookId st
      \<and> im_nextMoveId (importRow clock i r st) = im_nextMoveId st)
   \<or> (\<exists>b. im_books (importRow clock i r st) = im_books st @ [b]
         \<and> b_id b = im_nextBookId st
         \<and> im_nextBookId (importRow clock i r st) = im_nextBookId st + 1
         \<and> b_current_qty b = b_initial_qty b \<and> 0 \<le> b_initial_qty b
         \<and> (\<forall>x \<in> set (im_books st). b_barcode x \<noteq> b_barcode b)
         \<and> ((b_initial_qty b = 0
               \<and> im_movements (importRow clock i r st) = im_movements st
               \<and> im_nextMoveId (importRow clock i r st) = im_nextMoveId st)
            \<or> (0 < b_initial_qty b
               \<and> (\<exists>m. im_movements (importRow clock i r st) = im_movements st @ [m]
                      \<and> m_id m = im_nextMoveId st \<and> m_type m = TypeIn
                      \<and> m_bookBarcode m = b_barcode b \<and> m_qty m = b_initial_qty b)
               \<and> im_nextMoveId (importRow clock i r st) = im_nextMoveId st + 1)))"
  by (auto simp: importRow_def split: option.splits)

lemma importRows_alloc:
  assumes "im_nextBookId st = nextId (map b_id (im_books st))"
      and "im_nextMoveId st = nextId (map m_id (im_movements st))"
      and "im_books st = bs0 @ bs" "allocated (map b_id bs0) (map b_id bs)"
      and "im_movements st = ms0 @ ms" "allocated (map m_id ms0) (map m_id ms)"
  shows "\<exists>bs' ms'. im_books (importRows clock i rs st) = bs0 @ bs'
           \<and> allocated (map b_id bs0) (map b_id bs')
           \<and> im_movements (importRows clock i rs st) = ms0 @ ms'
           \<and> allocated (map m_id ms0) (map m_id ms')"
  using assms
proof (induction rs arbitrary: i st bs ms)
  case Nil
  then show ?case by auto
next
  case (Cons r rs)
  let ?st = "importRow clock i r st"
  from importRow_cases [of clock i r st]
  have "\<exists>bs1 ms1. im_nextBookId ?st = nextId (map b_id (im_books ?st))
          \<and> im_nextMoveId ?st = nextId (map m_id (im_movements ?st))
          \<and> im_books ?st = bs0 @ bs1 \<and> allocated (map b_id bs0) (map b_id bs1)
          \<and> im_movements ?st = ms0 @ ms1 \<and> allocated (map m_id ms0) (map m_id ms1)"
  proof (elim disjE exE conjE)
    assume "im_books ?st = im_books st" "im_movements ?st = im_movements st"
      "im_nextBookId ?st = im_nextBookId st" "im_nextMoveId ?st = im_nextMoveId st"
    with Cons.prems show ?thesis by auto
  next
    fix b
    assume b: "im_books ?st = im_books st @ [b]" "b_id b = im_nextBookId st"
      "im_nextBookId ?st = im_nextBookId st + 1"
      and m: "im_movements ?st = im_movements st" "im_nextMoveId ?st = im_nextMoveId st"
    have "im_nextBookId ?st = nextId (map b_id (im_books ?st))"
      using b Cons.prems(1) nextId_snoc [of "map b_id (im_books st)"] by simp
    moreover have "im_books ?st = bs0 @ (bs @ [b])"
      using b Cons.prems by simp
    moreover have "allocated (map b_id bs0) (map b_id (bs @ [b]))"
      using b Cons.prems by (simp add: allocated_snoc)
    ultimately show ?thesis using m Cons.prems by auto
  next
    fix b m
    assume b: "im_books ?st = im_books st @ [b]" "b_id b = im_nextBookId st"
      "im_nextBookId ?st = im_nextBookId st + 1"
      and m: "im_movements ?st = im_movements st @ [m]" "m_id m = im_nextMoveId st"
        "im_nextMoveId ?st = im_nextMoveId st + 1"
    have "im_nextBookId ?st = nextId (map b_id (im_books ?st))"
      using b Cons.prems(1) nextId_snoc [of "map b_id (im_books st)"] by simp
    moreover have "im_books ?st = bs0 @ (bs @ [b])"
      using b Cons.prems by simp
    moreover have "allocated (map b_id bs0) (map b_id (bs @ [b]))"
      using b Cons.prems by (simp add: allocated_snoc)
    moreover have "im_nextMoveId ?st = nextId (map m_id (im_movements ?st))"
      using m Cons.prems(2) nextId_snoc [of "map m_id (im_movements st)"] by simp
    moreover have "im_movements ?st = ms0 @ (ms @ [m])"
      using m Cons.prems by simp
    moreover have "allocated (map m_id ms0) (map m_id (ms @ [m]))"
      using m Cons.prems by (simp add: allocated_snoc)
    ultimately show ?thesis by blast
  qed
  then obtain bs1 ms1 where
    "im_nextBookId ?st = nextId (map b_id (im_books ?st))"
    "im_nextMoveId ?st = nextId (map m_id (im_movements ?st))"
    "im_books ?st = bs0 @ bs1" "allocated (map b_id bs0) (map b_id bs1)"
    "im_movements ?st = ms0 @ ms1" "allocated (map m_id ms0) (map m_id ms1)"
    by blast
  from Cons.IH [OF this] show ?case by simp
qed















lemma validateItems_length: "validateItems bs i xs = Inr ns \<Longrightarrow> length ns = length xs"
proof (induction xs arbitrary: i ns)
  case Nil
  then show ?case by simp
next
  case (Cons y ys)
  from Cons.prems obtain n ms where "ns = n # ms" "validateItems bs (i + 1) ys = Inr ms"
    by (auto simp: Let_def split: option.splits if_splits sum.splits)
  with Cons.IH [of "i + 1" ms] show ?case by simp
qed

lemma importRow_inserted:
  "int (length (im_books (importRow clock i r st))) - int (im_insertedCount (importRow clock i r st))
     = int (length (im_books st)) - int (im_insertedCount st)
   \<and> int (length (im_movements (importRow clock i r st)))
       - int (length (filter (\<lambda>b. 0 < b_initial_qty b) (im_books (importRow clock i r st))))
     = int (length (im_movements st))
       - int (length (filter (\<lambda>b. 0 < b_initial_qty b) (im_books st)))"
  by (auto simp: importRow_def split: option.splits)

lemma importRows_inserted:
  "int (length (im_books (importRows clock i rs st))) - int (im_insertedCount (importRows clock i rs st))
     = int (length (im_books st)) - int (im_insertedCount st)
   \<and> int (length (im_movements (importRows clock i rs st)))
       - int (length (filter (\<lambda>b. 0 < b_initial_qty b) (im_books (importRows clock i rs st))))
     = int (length (im_movements st))
       - int (length (filter (\<lambda>b. 0 < b_initial_qty b) (im_books st)))"
proof (induction rs arbitrary: i st)
  case Nil
  then show ?case by simp
next
  case (Cons r rs)
  show ?case
    using Cons.IH [of "i + 1" "importRow clock i r st"] importRow_inserted [of clock i r st]
    by simp
qed








subsection \<open>Deleting books\<close>

text \<open>
  Claim C10. \<open>POST /api/books/delete\<close> with an empty list of identifiers, or with a value
  that is not a list, is answered with the failure of status 400 and leaves the snapshot as
  it was: it is not a deletion of nothing that succeeds with \<open>deletedCount\<close> 0.
\<close>

theorem booksDelete_needs_ids:
  "booksDelete d None = (d, Inl NothingToDelete)
   \<and> booksDelete d (Some []) = (d, Inl NothingToDelete)
   \<and> status NothingToDelete = 400"
  by (simp add: booksDelete_def)

text \<open>
  Claim C8. For a non-empty list of identifiers the deletion succeeds. It keeps, in their
  order, the books whose identifier is not the number of some entry of the list, and removes
  the others; \<open>deletedCount\<close> is the number of books removed; the other collections are
  untouched. When no identifier matches a book, the count is 0 and the snapshot is unchanged.
\<close>

theorem booksDelete_removes_listed:
  assumes "ids \<noteq> []"
  shows "\<exists>d' n. booksDelete d (Some ids) = (d', Inr n)
           \<and> books d' = filter (\<lambda>b. Num (of_int (b_id b)) \<notin> set (map js_Number ids)) (books d)
           \<and> n = int (length (filter (\<lambda>b. Num (of_int (b_id b)) \<in> set (map js_Number ids))
                                 (books d)))
           \<and> sellers d' = sellers d \<and> stockMovements d' = stockMovements d
           \<and> sales d' = sales d
           \<and> ((\<forall>b \<in> set (books d). Num (of_int (b_id b)) \<notin> set (map js_Number ids))
                \<longrightarrow> n = 0 \<and> d' = d)"
proof -
  let ?P = "\<lambda>b. Num (of_int (b_id b)) \<in> set (map js_Number ids)"
  have count: "length (filter ?P (books d)) + length (filter (\<lambda>b. \<not> ?P b) (books d))
               = length (books d)"
    by (rule sum_length_filter_compl)
  have none: "(\<forall>b \<in> set (books d). \<not> ?P b) \<Longrightarrow> filter (\<lambda>b. \<not> ?P b) (books d) = books d"
    by (simp add: filter_id_conv)
  have none': "(\<forall>b \<in> set (books d). \<not> ?P b) \<Longrightarrow> filter ?P (books d) = []"
    by (simp add: filter_empty_conv)
  show ?thesis
    using assms count none none' by (auto simp: booksDelete_def Let_def)
qed

lemma ex_ids_Number: "map js_Number [JStr ''2'', JNum 7] = [Num 2, Num 7]"
  by (simp add: js_eval)

theorem booksDelete_removes_listed_witness:
  "[JStr ''2'', JNum 7] \<noteq> []
   \<and> booksDelete ex_shop (Some [JStr ''2'', JNum 7]) = (ex_shop \<lparr> books := [ex_bookA] \<rparr>, Inr 1)"
proof -
  have ne: "[JStr ''2'', JNum 7] \<noteq> []" by simp
  from booksDelete_removes_listed [OF ne, of ex_shop]
  obtain d' n where r: "booksDelete ex_shop (Some [JStr ''2'', JNum 7]) = (d', Inr n)"
    and b: "books d' = filter (\<lambda>b. Num (of_int (b_id b)) \<notin> set (map js_Number [JStr ''2'', JNum 7]))
                         (books ex_shop)"
    and n: "n = int (length (filter (\<lambda>b. Num (of_int (b_id b)) \<in> set (map js_Number [JStr ''2'', JNum 7]))
                         (books ex_shop)))"
    and rest: "sellers d' = sellers ex_shop" "stockMovements d' = stockMovements ex_shop"
              "sales d' = sales ex_shop"
    by blast
  from b have "books d' = [ex_bookA]"
    unfolding ex_ids_Number by (simp add: ex_shop_def ex_bookA_def ex_bookB_def)
  moreover from n have "n = 1"
    unfolding ex_ids_Number by (simp add: ex_shop_def ex_bookA_def ex_bookB_def)
  ultimately have "d' = ex_shop \<lparr> books := [ex_bookA] \<rparr>"
    using rest by simp
  with r \<open>n = 1\<close> ne show ?thesis by simp
qed

subsection \<open>Updating a book\<close>

text \<open>
  Claim C7. When a request to \<open>POST /api/books\<close> with an identifier succeeds, the book
  found by the identifier is replaced in place by the updated book, which has the same
  identifier, initial quantity and current quantity; when the supplied bar code is absent,
  empty or blank, it also keeps its bar code. No other book changes, and the sellers, the
  movements and the sales are as before.
\<close>

theorem update_keeps_quantities:
  assumes idv: "truthy (bk_id body)"
      and ok: "booksPost gen d body = Some (d', Inr b')"
  shows "\<exists>i < length (books d).
           findIndex (\<lambda>b. Num (of_int (b_id b)) = js_Number (bk_id body)) (books d) = Some i
         \<and> books d' = (books d) [i := b']
         \<and> b_id b' = b_id (books d ! i)
         \<and> b_initial_qty b' = b_initial_qty (books d ! i)
         \<and> b_current_qty b' = b_current_qty (books d ! i)
         \<and> (\<not> truthy (bk_barcode body) \<or> trim (js_String (bk_barcode body)) = []
              \<longrightarrow> b_barcode b' = b_barcode (books d ! i))
         \<and> sellers d' = sellers d \<and> stockMovements d' = stockMovements d \<and> sales d' = sales d"
proof -
  from ok idv obtain f where f: "parseBookFields body = Inr f"
    and u: "updateBook d (bk_id body) f = (d', Inr b')"
    by (auto simp: booksPost_def split: sum.splits)
  from f have bc: "f_barcode f = (if truthy (bk_barcode body)
                                  then trim (js_String (bk_barcode body)) else [])"
    by (rule parseBookFields_Inr)
  from u obtain i where
    i: "findIndex (\<lambda>b. Num (of_int (b_id b)) = js_Number (bk_id body)) (books d) = Some i"
    by (auto simp: updateBook_def Let_def split: option.splits)
  from findIndex_Some [OF i] have len: "i < length (books d)" by simp
  from u i bc len show ?thesis
    by (auto simp: updateBook_def Let_def split: if_splits)
qed

theorem update_keeps_quantities_witness:
  "truthy (bk_id ex_update)
   \<and> booksPost [] ex_shop ex_update =
       Some (ex_shop \<lparr> books := [ex_bookA \<lparr> b_title := ''Alpha 2'', b_price := Num (25 / 2) \<rparr>,
                                 ex_bookB] \<rparr>,
             Inr (ex_bookA \<lparr> b_title := ''Alpha 2'', b_price := Num (25 / 2) \<rparr>))
   \<and> (\<exists>i < length (books ex_shop).
         b_initial_qty (ex_bookA \<lparr> b_title := ''Alpha 2'', b_price := Num (25 / 2) \<rparr>)
           = b_initial_qty (books ex_shop ! i)
       \<and> b_current_qty (ex_bookA \<lparr> b_title := ''Alpha 2'', b_price := Num (25 / 2) \<rparr>)
           = b_current_qty (books ex_shop ! i)
       \<and> b_barcode (ex_bookA \<lparr> b_title := ''Alpha 2'', b_price := Num (25 / 2) \<rparr>)
           = b_barcode (books ex_shop ! i))"
proof -
  have idv: "truthy (bk_id ex_update)"
    by (simp add: ex_update_def)
  have blank: "trim (js_String (bk_barcode ex_update)) = []"
    by (simp add: js_eval ex_defs)
  have run: "booksPost [] ex_shop ex_update =
       Some (ex_shop \<lparr> books := [ex_bookA \<lparr> b_title := ''Alpha 2'', b_price := Num (25 / 2) \<rparr>,
                                 ex_bookB] \<rparr>,
             Inr (ex_bookA \<lparr> b_title := ''Alpha 2'', b_price := Num (25 / 2) \<rparr>))"
    by (simp add: booksPost_def parseBookFields_def updateBook_def js_eval ex_defs)
  from update_keeps_quantities [OF idv run] blank idv run show ?thesis
    by blast
qed

subsection \<open>Creating a book\<close>




subsection \<open>The sale of one book\<close>

text \<open>
  Claim C4, with the quantity 0 set apart. Let the quantity of a request parse to \<open>q\<close>. If
  \<open>q \<le> 0\<close> the request fails with \<open>InvalidSaleData\<close> and the snapshot is unchanged,
  whatever book and seller it names. Let the request name, by non-empty codes, a book (the
  first with that bar code) and a seller. If \<open>0 < q\<close> and \<open>q\<close> is the book's current
  quantity, the sale succeeds, the total returned is the product the server computes from the
  stored price and \<open>q\<close> (for a stored price \<open>p\<close>, the double nearest to \<open>p * q\<close>), and the
  book's current quantity becomes 0, nothing else changing among the books. If \<open>q\<close> exceeds
  the current quantity, the request fails with \<open>NotEnoughStock\<close> and the snapshot is
  unchanged.
\<close>

theorem sale_of_full_stock:
  fixes now :: string and d :: db and body :: sale_body and i j :: nat and q :: int
  defines "named \<equiv>
      truthy (sale_bookBarcode body) \<and> trim (js_String (sale_bookBarcode body)) \<noteq> []
    \<and> findIndex (\<lambda>b. b_barcode b = trim (js_String (sale_bookBarcode body))) (books d) = Some i
    \<and> truthy (sale_sellerBarcode body) \<and> trim (js_String (sale_sellerBarcode body)) \<noteq> []
    \<and> findIndex (\<lambda>s. s_barcode s = trim (js_String (sale_sellerBarcode body))) (sellers d)
         = Some j"
  assumes qty: "(if given (sale_qty body) then js_parseInt (sale_qty body) else Some 0) = Some q"
  shows "(q \<le> 0 \<longrightarrow> stockSale now d body = (d, Inl InvalidSaleData))
       \<and> (named \<and> 0 < q \<and> q = b_current_qty (books d ! i) \<longrightarrow>
            (\<exists>d' r. stockSale now d body = (d', Inr r)
               \<and> r_total r = times_qty (orZero (b_price (books d ! i))) q
               \<and> (\<forall>p. b_price (books d ! i) = Num p \<longrightarrow> r_total r = toDouble (p * of_int q))
               \<and> r_qty r = q
               \<and> books d' = (books d) [i := (books d ! i) \<lparr> b_current_qty := 0 \<rparr>]
               \<and> b_current_qty (books d' ! i) = 0))
       \<and> (named \<and> 0 < q \<and> b_current_qty (books d ! i) < q \<longrightarrow>
            stockSale now d body = (d, Inl NotEnoughStock))"
proof -
  have c1: "q \<le> 0 \<longrightarrow> stockSale now d body = (d, Inl InvalidSaleData)"
    using qty by (simp add: stockSale_def Let_def)
  have c2: "named \<and> 0 < q \<and> q = b_current_qty (books d ! i) \<longrightarrow>
            (\<exists>d' r. stockSale now d body = (d', Inr r)
               \<and> r_total r = times_qty (orZero (b_price (books d ! i))) q
               \<and> (\<forall>p. b_price (books d ! i) = Num p \<longrightarrow> r_total r = toDouble (p * of_int q))
               \<and> r_qty r = q
               \<and> books d' = (books d) [i := (books d ! i) \<lparr> b_current_qty := 0 \<rparr>]
               \<and> b_current_qty (books d' ! i) = 0)"
  proof
    assume a: "named \<and> 0 < q \<and> q = b_current_qty (books d ! i)"
    then have f: "findIndex (\<lambda>b. b_barcode b = trim (js_String (sale_bookBarcode body))) (books d) = Some i"
      by (simp add: named_def)
    from findIndex_Some [OF f] have i: "i < length (books d)" by simp
    have z: "orZero (Num p) = Num p" for p
      by (simp add: orZero_def)
    show "\<exists>d' r. stockSale now d body = (d', Inr r)
               \<and> r_total r = times_qty (orZero (b_price (books d ! i))) q
               \<and> (\<forall>p. b_price (books d ! i) = Num p \<longrightarrow> r_total r = toDouble (p * of_int q))
               \<and> r_qty r = q
               \<and> books d' = (books d) [i := (books d ! i) \<lparr> b_current_qty := 0 \<rparr>]
               \<and> b_current_qty (books d' ! i) = 0"
      using a qty i unfolding named_def by (simp add: stockSale_def Let_def z)
  qed
  have c3: "named \<and> 0 < q \<and> b_current_qty (books d ! i) < q \<longrightarrow>
            stockSale now d body = (d, Inl NotEnoughStock)"
    using qty unfolding named_def by (simp add: stockSale_def Let_def)
  show ?thesis by (intro conjI) (rule c1 c2 c3)+
qed

text \<open>
  The first book of the example shop: five copies at 10 sell for 50, six are refused, and
  a quantity of 0 or below is invalid. Three copies of a book priced 0.1 sell for
  0.30000000000000004, the product of the doubles, and not for 0.3.
\<close>

theorem sale_of_full_stock_witness:
  "(\<exists>d' r. stockSale ''t1'' ex_shop (ex_sale ''A'' 5) = (d', Inr r)
       \<and> r_total r = Num 50 \<and> r_qty r = 5 \<and> b_current_qty (books d' ! 0) = 0)
   \<and> stockSale ''t1'' ex_shop (ex_sale ''A'' 6) = (ex_shop, Inl NotEnoughStock)
   \<and> stockSale ''t1'' ex_shop (ex_sale ''A'' 0) = (ex_shop, Inl InvalidSaleData)
   \<and> stockSale ''t1'' ex_shop (ex_sale ''A'' (- 2)) = (ex_shop, Inl InvalidSaleData)
   \<and> (\<exists>d' r. stockSale ''t1'' (ex_shop \<lparr> books := [ex_dime] \<rparr>) (ex_sale ''C'' 3) = (d', Inr r)
       \<and> r_total r = js_Number (JStr ''0.30000000000000004'')
       \<and> r_total r \<noteq> js_Number (JStr ''0.3'')
       \<and> b_current_qty (books d' ! 0) = 0)"
proof -
  let ?d = "ex_shop \<lparr> books := [ex_dime] \<rparr>"
  have q5: "(if given (sale_qty (ex_sale ''A'' 5)) then js_parseInt (sale_qty (ex_sale ''A'' 5))
             else Some 0) = Some 5"
    and q6: "(if given (sale_qty (ex_sale ''A'' 6)) then js_parseInt (sale_qty (ex_sale ''A'' 6))
             else Some 0) = Some 6"
    and q0: "(if given (sale_qty (ex_sale ''A'' 0)) then js_parseInt (sale_qty (ex_sale ''A'' 0))
             else Some 0) = Some 0"
    and qm: "(if given (sale_qty (ex_sale ''A'' (- 2)))
              then js_parseInt (sale_qty (ex_sale ''A'' (- 2))) else Some 0) = Some (- 2)"
    and q3: "(if given (sale_qty (ex_sale ''C'' 3)) then js_parseInt (sale_qty (ex_sale ''C'' 3))
             else Some 0) = Some 3"
    by (simp_all add: js_eval ex_defs)
  note full = sale_of_full_stock [where now = "''t1''" and i = 0 and j = 0]
  have pre5: "(truthy (sale_bookBarcode (ex_sale ''A'' 5))
      \<and> trim (js_String (sale_bookBarcode (ex_sale ''A'' 5))) \<noteq> []
      \<and> findIndex (\<lambda>b. b_barcode b = trim (js_String (sale_bookBarcode (ex_sale ''A'' 5))))
          (books ex_shop) = Some 0
      \<and> truthy (sale_sellerBarcode (ex_sale ''A'' 5))
      \<and> trim (js_String (sale_sellerBarcode (ex_sale ''A'' 5))) \<noteq> []
      \<and> findIndex (\<lambda>s. s_barcode s = trim (js_String (sale_sellerBarcode (ex_sale ''A'' 5))))
          (sellers ex_shop) = Some 0)
      \<and> (0::int) < 5 \<and> 5 = b_current_qty (books ex_shop ! 0)"
    by (simp add: js_eval ex_defs)
  have pre6: "(truthy (sale_bookBarcode (ex_sale ''A'' 6))
      \<and> trim (js_String (sale_bookBarcode (ex_sale ''A'' 6))) \<noteq> []
      \<and> findIndex (\<lambda>b. b_barcode b = trim (js_String (sale_bookBarcode (ex_sale ''A'' 6))))
          (books ex_shop) = Some 0
      \<and> truthy (sale_sellerBarcode (ex_sale ''A'' 6))
      \<and> trim (js_String (sale_sellerBarcode (ex_sale ''A'' 6))) \<noteq> []
      \<and> findIndex (\<lambda>s. s_barcode s = trim (js_String (sale_sellerBarcode (ex_sale ''A'' 6))))
          (sellers ex_shop) = Some 0)
      \<and> (0::int) < 6 \<and> b_current_qty (books ex_shop ! 0) < 6"
    by (simp add: js_eval ex_defs)
  have pre3: "(truthy (sale_bookBarcode (ex_sale ''C'' 3))
      \<and> trim (js_String (sale_bookBarcode (ex_sale ''C'' 3))) \<noteq> []
      \<and> findIndex (\<lambda>b. b_barcode b = trim (js_String (sale_bookBarcode (ex_sale ''C'' 3))))
          (books ?d) = Some 0
      \<and> truthy (sale_sellerBarcode (ex_sale ''C'' 3))
      \<and> trim (js_String (sale_sellerBarcode (ex_sale ''C'' 3))) \<noteq> []
      \<and> findIndex (\<lambda>s. s_barcode s = trim (js_String (sale_sellerBarcode (ex_sale ''C'' 3))))
          (sellers ?d) = Some 0)
      \<and> (0::int) < 3 \<and> 3 = b_current_qty (books ?d ! 0)"
    by (simp add: js_eval ex_defs ex_dime_def)
  have fifty: "times_qty (orZero (b_price (books ex_shop ! 0))) 5 = Num 50"
    by (simp add: js_eval ex_defs)
  have cents: "times_qty (orZero (b_price (books ?d ! 0))) 3
               = Num (5404319552844596 / 18014398509481984)"
    by (simp add: js_eval ex_defs ex_dime_def)
  have lit: "js_Number (JStr ''0.30000000000000004'') = Num (5404319552844596 / 18014398509481984)"
    "js_Number (JStr ''0.3'') = Num (5404319552844595 / 18014398509481984)"
    by (simp_all add: js_eval)
  from full [OF q5, THEN conjunct2, THEN conjunct1, rule_format, OF pre5]
  obtain d5 r5 where "stockSale ''t1'' ex_shop (ex_sale ''A'' 5) = (d5, Inr r5)"
      "r_total r5 = times_qty (orZero (b_price (books ex_shop ! 0))) 5" "r_qty r5 = 5"
      "b_current_qty (books d5 ! 0) = 0"
    by blast
  with fifty
  have 1: "\<exists>d' r. stockSale ''t1'' ex_shop (ex_sale ''A'' 5) = (d', Inr r)
       \<and> r_total r = Num 50 \<and> r_qty r = 5 \<and> b_current_qty (books d' ! 0) = 0"
    by simp
  have 2: "stockSale ''t1'' ex_shop (ex_sale ''A'' 6) = (ex_shop, Inl NotEnoughStock)"
    by (rule full [OF q6, THEN conjunct2, THEN conjunct2, rule_format, OF pre6])
  have 3: "stockSale ''t1'' ex_shop (ex_sale ''A'' 0) = (ex_shop, Inl InvalidSaleData)"
    by (rule full [OF q0, THEN conjunct1, rule_format]) simp
  have 4: "stockSale ''t1'' ex_shop (ex_sale ''A'' (- 2)) = (ex_shop, Inl InvalidSaleData)"
    by (rule full [OF qm, THEN conjunct1, rule_format]) simp
  from full [OF q3, THEN conjunct2, THEN conjunct1, rule_format, OF pre3]
  obtain d3 r3 where "stockSale ''t1'' ?d (ex_sale ''C'' 3) = (d3, Inr r3)"
      "r_total r3 = times_qty (orZero (b_price (books ?d ! 0))) 3"
      "b_current_qty (books d3 ! 0) = 0"
    by blast
  with cents
  have 5: "\<exists>d' r. stockSale ''t1'' ?d (ex_sale ''C'' 3) = (d', Inr r)
       \<and> r_total r = js_Number (JStr ''0.30000000000000004'')
       \<and> r_total r \<noteq> js_Number (JStr ''0.3'')
       \<and> b_current_qty (books d' ! 0) = 0"
    unfolding lit by simp
  show ?thesis by (intro conjI) (rule 1 2 3 4 5)+
qed

text \<open>
  The claim as it is written fails at the quantity 0: the second book of the example shop
  has no stock, a sale of 0 copies asks for exactly its current quantity, and the request is
  rejected as invalid.
\<close>

theorem sale_of_nothing_rejected:
  "findIndex (\<lambda>b. b_barcode b = trim (js_String (sale_bookBarcode (ex_sale ''B'' 0))))
      (books ex_shop) = Some 1
   \<and> findIndex (\<lambda>s. s_barcode s = trim (js_String (sale_sellerBarcode (ex_sale ''B'' 0))))
      (sellers ex_shop) = Some 0
   \<and> js_parseInt (sale_qty (ex_sale ''B'' 0)) = Some (b_current_qty (books ex_shop ! 1))
   \<and> stockSale ''t1'' ex_shop (ex_sale ''B'' 0) = (ex_shop, Inl InvalidSaleData)"
  by (simp add: stockSale_def js_eval ex_defs)

subsection \<open>The sale of several books\<close>

lemma validateItems_Inr:
  "validateItems bs i xs = Inr ns \<Longrightarrow> x \<in> set xs \<Longrightarrow>
     itemBarcode x \<noteq> [] \<and>
     (\<exists>q k. itemQty x = Some q \<and> 0 < q
            \<and> findIndex (\<lambda>b. b_barcode b = itemBarcode x) bs = Some k
            \<and> \<not> b_current_qty (bs ! k) < q)"
proof (induction xs arbitrary: i ns)
  case Nil
  then show ?case by simp
next
  case (Cons y ys)
  from Cons.prems(1) obtain q k ms where
      y: "itemBarcode y \<noteq> []" "itemQty y = Some q" "0 < q"
         "findIndex (\<lambda>b. b_barcode b = itemBarcode y) bs = Some k"
         "\<not> b_current_qty (bs ! k) < q"
      and rest: "validateItems bs (i + 1) ys = Inr ms"
    by (auto simp: Let_def split: option.splits if_splits sum.splits)
  show ?case
  proof (cases "x = y")
    case True
    with y show ?thesis by simp
  next
    case False
    with Cons.prems(2) have "x \<in> set ys" by simp
    from Cons.IH [OF rest this] show ?thesis .
  qed
qed

text \<open>
  Claim C2. If some item of a request to \<open>POST /api/sales/quick\<close> fails a check of the
  first loop (its bar code is absent or blank; its quantity does not parse or is not
  positive; no book has its bar code; or its quantity exceeds the current quantity of the
  book with its bar code), the request is answered with a failure and the snapshot is the
  one loaded: no quantity has changed and no movement or sale has been added, whatever the
  other items are.
\<close>

theorem salesQuick_all_or_nothing:
  fixes d :: db and x :: "item option"
  defines "fails \<equiv>
     itemBarcode x = [] \<or> itemQty x = None
     \<or> (\<exists>q. itemQty x = Some q
            \<and> (q \<le> 0
                 \<or> (\<forall>b \<in> set (books d). b_barcode b \<noteq> itemBarcode x)
                 \<or> (\<exists>k. findIndex (\<lambda>b. b_barcode b = itemBarcode x) (books d) = Some k
                         \<and> b_current_qty (books d ! k) < q)))"
  assumes items: "qk_items body = Some items" and x: "x \<in> set items" and bad: "fails"
  shows "\<exists>e. salesQuick now d body = (d, Inl e)"
proof (cases "validateItems (books d) 0 items")
  case (Inl e)
  with items show ?thesis
    by (auto simp: salesQuick_def Let_def split: option.splits)
next
  case (Inr ns)
  from validateItems_Inr [OF Inr x] obtain q k where
    ok: "itemBarcode x \<noteq> []" "itemQty x = Some q" "0 < q"
        "findIndex (\<lambda>b. b_barcode b = itemBarcode x) (books d) = Some k"
        "\<not> b_current_qty (books d ! k) < q"
    by blast
  from findIndex_Some [OF ok(4)] have "\<exists>b \<in> set (books d). b_barcode b = itemBarcode x"
    by (metis nth_mem)
  with bad ok have False unfolding fails_def by auto
  then show ?thesis ..
qed

text \<open>The spec's example: two copies of a book in stock, then 999 of one with none.\<close>

theorem salesQuick_all_or_nothing_witness:
  "qk_items (ex_quick [(''A'', 2), (''B'', 999)])
     = Some [Some \<lparr> it_barcode = JStr ''A'', it_qty = JNum 2 \<rparr>,
             Some \<lparr> it_barcode = JStr ''B'', it_qty = JNum 999 \<rparr>]
   \<and> salesQuick ''t1'' ex_shop (ex_quick [(''A'', 2), (''B'', 999)])
     = (ex_shop, Inl (ItemNotEnoughStock ''Beta''))"
proof -
  let ?x = "Some \<lparr> it_barcode = JStr ''B'', it_qty = JNum 999 \<rparr>"
  let ?body = "ex_quick [(''A'', 2), (''B'', 999)]"
  have items: "qk_items ?body = Some [Some \<lparr> it_barcode = JStr ''A'', it_qty = JNum 2 \<rparr>, ?x]"
    by (simp add: ex_defs)
  have x: "?x \<in> set [Some \<lparr> it_barcode = JStr ''A'', it_qty = JNum 2 \<rparr>, ?x]"
    by simp
  have bad: "itemBarcode ?x = [] \<or> itemQty ?x = None
     \<or> (\<exists>q. itemQty ?x = Some q
            \<and> (q \<le> 0
                 \<or> (\<forall>b \<in> set (books ex_shop). b_barcode b \<noteq> itemBarcode ?x)
                 \<or> (\<exists>k. findIndex (\<lambda>b. b_barcode b = itemBarcode ?x) (books ex_shop) = Some k
                         \<and> b_current_qty (books ex_shop ! k) < q)))"
    by (simp add: itemBarcode_def itemQty_def js_eval ex_defs)
  from salesQuick_all_or_nothing [OF items x bad, of "''t1''"]
  obtain e where e: "salesQuick ''t1'' ex_shop ?body = (ex_shop, Inl e)" ..
  have "snd (salesQuick ''t1'' ex_shop ?body) = Inl (ItemNotEnoughStock ''Beta'')"
    by (simp add: salesQuick_def itemBarcode_def itemQty_def js_eval ex_defs)
  with e items show ?thesis by simp
qed

text \<open>
  Claim C3 does not hold of the handler: the first loop compares each item with the stock
  as loaded, so two items for the same book pass when each alone is in stock, and the second
  loop takes both. The book of the example shop with five copies ends with \<open>- 1\<close>.
\<close>

theorem salesQuick_oversells:
  "salesQuick ''t1'' ex_shop (ex_quick [(''A'', 3), (''A'', 3)]) =
     (ex_shop \<lparr> books := [ex_bookA \<lparr> b_current_qty := - 1 \<rparr>, ex_bookB],
                stockMovements :=
                  [\<lparr> m_id = 1, m_type = TypeOut, m_bookBarcode = ''A'', m_qty = 3,
                     m_note = QuickSaleNote ''Sam'', m_date = ''t1'' \<rparr>,
                   \<lparr> m_id = 2, m_type = TypeOut, m_bookBarcode = ''A'', m_qty = 3,
                     m_note = QuickSaleNote ''Sam'', m_date = ''t1'' \<rparr>],
                sales :=
                  [\<lparr> sl_id = 1, sl_bookBarcode = ''A'', sl_sellerBarcode = ''S'', sl_qty = 3,
                     sl_total = Num 30, sl_date = ''t1'' \<rparr>,
                   \<lparr> sl_id = 2, sl_bookBarcode = ''A'', sl_sellerBarcode = ''S'', sl_qty = 3,
                     sl_total = Num 30, sl_date = ''t1'' \<rparr>] \<rparr>,
      Inr \<lparr> q_totalAmount = Num 60, q_totalQty = 6, q_itemsCount = 2 \<rparr>)"
  by (simp add: salesQuick_def itemBarcode_def itemQty_def applyItem_def js_eval ex_defs)

subsection \<open>Identifiers\<close>

text \<open>
  Claim C9. The next identifier of a collection is 1 when the collection is empty and its
  largest identifier plus 1 otherwise. Every handler that adds entries gives each new entry
  the next identifier of its collection as it is at that moment. For each handler the
  statement has two parts: a request that passes the handler's checks is accepted and the
  entry is appended with that identifier, and whenever the handler answers with success the
  entry it appended has that identifier. This holds of the new book of a creation (with the
  bar code supplied or generated), the new seller, the movement of incoming stock, the
  movement and the sale of a sale, and, one after another, the movements and sales of a sale
  of several books and the books and movements of an import (as many books as the import
  reports inserted, and one movement for each with a positive initial quantity). Nothing is
  remembered between requests, so the identifier of a deleted last book is given again.
\<close>

theorem next_identifier:
  fixes d d1 d2 d3 d4 d5 d6 :: db and now c :: string and ids :: "int list"
    and body :: book_body and gen :: "(nat \<times> nat) list" and f :: book_fields and b b3 :: book
    and sbody :: seller_body and s :: seller
    and ibody :: stockin_body and qi qu :: int and i k j l :: nat
    and ubody :: sale_body and r4 :: sale_result
    and qbody :: quick_body and r5 :: quick_result and items :: "item option list"
    and ns :: "norm_item list"
    and clock :: "nat \<Rightarrow> string" and rows :: "row option list option" and rs :: "row option list"
    and r6 :: import_result
  defines "sname \<equiv> if truthy (sb_name sbody) then trim (js_String (sb_name sbody)) else []"
    and "scode \<equiv> if truthy (sb_barcode sbody) then trim (js_String (sb_barcode sbody)) else []"
    and "icode \<equiv> if truthy (in_barcode ibody) then trim (js_String (in_barcode ibody)) else []"
    and "ucode \<equiv> if truthy (sale_bookBarcode ubody)
                  then trim (js_String (sale_bookBarcode ubody)) else []"
    and "useller \<equiv> if truthy (sale_sellerBarcode ubody)
                    then trim (js_String (sale_sellerBarcode ubody)) else []"
    and "qseller \<equiv> if truthy (qk_sellerBarcode qbody)
                    then trim (js_String (qk_sellerBarcode qbody)) else []"
  shows
   "nextId ids = (if ids = [] then 1 else Max (set ids) + 1)
   \<and> (\<not> truthy (bk_id body) \<and> parseBookFields body = Inr f
        \<and> (f_barcode f \<noteq> [] \<and> (\<forall>x \<in> set (books d). b_barcode x \<noteq> f_barcode f)
               \<and> c = f_barcode f
             \<or> f_barcode f = [] \<and> genCode gen (books d) = Some c)
        \<longrightarrow> (\<exists>x. booksPost gen d body = Some (d \<lparr> books := books d @ [x] \<rparr>, Inr x)
                 \<and> b_id x = nextId (map b_id (books d)) \<and> b_barcode x = c))
   \<and> (\<not> truthy (bk_id body) \<and> booksPost gen d body = Some (d1, Inr b)
        \<longrightarrow> books d1 = books d @ [b] \<and> b_id b = nextId (map b_id (books d)))
   \<and> (sname \<noteq> [] \<and> scode \<noteq> [] \<and> (\<forall>x \<in> set (sellers d). s_barcode x \<noteq> scode)
        \<longrightarrow> sellersPost now d sbody =
              (d \<lparr> sellers := sellers d @
                      [\<lparr> s_id = nextId (map s_id (sellers d)), s_name = sname,
                         s_barcode = scode, s_created_at = now \<rparr>] \<rparr>,
               Inr \<lparr> s_id = nextId (map s_id (sellers d)), s_name = sname,
                     s_barcode = scode, s_created_at = now \<rparr>))
   \<and> (sellersPost now d sbody = (d2, Inr s)
        \<longrightarrow> sellers d2 = sellers d @ [s] \<and> s_id s = nextId (map s_id (sellers d)))
   \<and> ((if given (in_qty ibody) then js_parseInt (in_qty ibody) else Some 0) = Some qi
        \<and> 0 < qi \<and> icode \<noteq> [] \<and> findIndex (\<lambda>x. b_barcode x = icode) (books d) = Some i
        \<longrightarrow> (\<exists>d' x m. stockIn now d ibody = (d', Inr x)
                 \<and> stockMovements d' = stockMovements d @ [m]
                 \<and> m_id m = nextId (map m_id (stockMovements d))
                 \<and> m_type m = TypeIn \<and> m_bookBarcode m = icode \<and> m_qty m = qi))
   \<and> (stockIn now d ibody = (d3, Inr b3)
        \<longrightarrow> (\<exists>m. stockMovements d3 = stockMovements d @ [m]
                 \<and> m_id m = nextId (map m_id (stockMovements d))))
   \<and> ((if given (sale_qty ubody) then js_parseInt (sale_qty ubody) else Some 0) = Some qu
        \<and> 0 < qu \<and> ucode \<noteq> [] \<and> useller \<noteq> []
        \<and> findIndex (\<lambda>x. b_barcode x = ucode) (books d) = Some k
        \<and> findIndex (\<lambda>x. s_barcode x = useller) (sellers d) = Some j
        \<and> qu \<le> b_current_qty (books d ! k)
        \<longrightarrow> (\<exists>d' r m x. stockSale now d ubody = (d', Inr r)
                 \<and> stockMovements d' = stockMovements d @ [m]
                 \<and> m_id m = nextId (map m_id (stockMovements d))
                 \<and> m_type m = TypeOut \<and> m_bookBarcode m = ucode \<and> m_qty m = qu
                 \<and> sales d' = sales d @ [x] \<and> sl_id x = nextId (map sl_id (sales d))
                 \<and> sl_bookBarcode x = ucode \<and> sl_sellerBarcode x = useller \<and> sl_qty x = qu))
   \<and> (stockSale now d ubody = (d4, Inr r4)
        \<longrightarrow> (\<exists>m x. stockMovements d4 = stockMovements d @ [m]
                 \<and> m_id m = nextId (map m_id (stockMovements d))
                 \<and> sales d4 = sales d @ [x] \<and> sl_id x = nextId (map sl_id (sales d))))
   \<and> (qseller \<noteq> [] \<and> qk_items qbody = Some items \<and> items \<noteq> []
        \<and> findIndex (\<lambda>x. s_barcode x = qseller) (sellers d) = Some l
        \<and> validateItems (books d) 0 items = Inr ns
        \<longrightarrow> (\<exists>d' r ms ss. salesQuick now d qbody = (d', Inr r)
                 \<and> stockMovements d' = stockMovements d @ ms
                 \<and> allocated (map m_id (stockMovements d)) (map m_id ms)
                 \<and> sales d' = sales d @ ss
                 \<and> allocated (map sl_id (sales d)) (map sl_id ss)
                 \<and> length ms = length items \<and> length ss = length items))
   \<and> (salesQuick now d qbody = (d5, Inr r5)
        \<longrightarrow> (\<exists>ms ss. stockMovements d5 = stockMovements d @ ms
                 \<and> allocated (map m_id (stockMovements d)) (map m_id ms)
                 \<and> sales d5 = sales d @ ss
                 \<and> allocated (map sl_id (sales d)) (map sl_id ss)
                 \<and> length ms = q_itemsCount r5 \<and> length ss = q_itemsCount r5))
   \<and> (rows = Some rs
        \<longrightarrow> (\<exists>d' r bs ms. importBooksTsv clock d rows = (d', Inr r)
                 \<and> books d' = books d @ bs
                 \<and> allocated (map b_id (books d)) (map b_id bs)
                 \<and> length bs = ir_insertedCount r
                 \<and> stockMovements d' = stockMovements d @ ms
                 \<and> allocated (map m_id (stockMovements d)) (map m_id ms)
                 \<and> length ms = length (filter (\<lambda>x. 0 < b_initial_qty x) bs)))
   \<and> (importBooksTsv clock d rows = (d6, Inr r6)
        \<longrightarrow> (\<exists>bs ms. books d6 = books d @ bs
                 \<and> allocated (map b_id (books d)) (map b_id bs)
                 \<and> stockMovements d6 = stockMovements d @ ms
                 \<and> allocated (map m_id (stockMovements d)) (map m_id ms)))"
proof -
  let ?qst = "\<lparr> qs_books = books d, qs_movements = stockMovements d, qs_sales = sales d,
                qs_nextMoveId = nextId (map m_id (stockMovements d)),
                qs_nextSaleId = nextId (map sl_id (sales d)),
                qs_totalAmount = Num 0, qs_totalQty = 0 \<rparr>"
  let ?ist = "\<lparr> im_books = books d, im_movements = stockMovements d,
                im_nextBookId = nextId (map b_id (books d)),
                im_nextMoveId = nextId (map m_id (stockMovements d)),
                im_insertedCount = 0, im_skippedExisting = 0, im_errors = [] \<rparr>"
  have quick: "\<exists>ms' ss'. qs_movements (fold (applyItem now sn sc) xs ?qst) = stockMovements d @ ms'
           \<and> allocated (map m_id (stockMovements d)) (map m_id ms')
           \<and> qs_sales (fold (applyItem now sn sc) xs ?qst) = sales d @ ss'
           \<and> allocated (map sl_id (sales d)) (map sl_id ss')
           \<and> length ms' = length ([] :: movement list) + length xs
           \<and> length ss' = length ([] :: sale list) + length xs" for sn sc xs
    by (rule fold_applyItem) simp_all
  have imp: "\<exists>bs' ms'. im_books (importRows clock 0 xs ?ist) = books d @ bs'
           \<and> allocated (map b_id (books d)) (map b_id bs')
           \<and> im_movements (importRows clock 0 xs ?ist) = stockMovements d @ ms'
           \<and> allocated (map m_id (stockMovements d)) (map m_id ms')" for xs
    by (rule importRows_alloc [where bs = "[]" and ms = "[]"]) simp_all
  have p1: "\<not> truthy (bk_id body) \<and> parseBookFields body = Inr f
        \<and> (f_barcode f \<noteq> [] \<and> (\<forall>x \<in> set (books d). b_barcode x \<noteq> f_barcode f)
               \<and> c = f_barcode f
             \<or> f_barcode f = [] \<and> genCode gen (books d) = Some c)
        \<longrightarrow> (\<exists>x. booksPost gen d body = Some (d \<lparr> books := books d @ [x] \<rparr>, Inr x)
                 \<and> b_id x = nextId (map b_id (books d)) \<and> b_barcode x = c)"
    by (auto simp: booksPost_def createBook_def Let_def)
  have c1: "\<not> truthy (bk_id body) \<and> booksPost gen d body = Some (d1, Inr b)
        \<longrightarrow> books d1 = books d @ [b] \<and> b_id b = nextId (map b_id (books d))"
    by (auto simp: booksPost_def createBook_def Let_def split: sum.splits if_splits option.splits)
  have p2: "sname \<noteq> [] \<and> scode \<noteq> [] \<and> (\<forall>x \<in> set (sellers d). s_barcode x \<noteq> scode)
        \<longrightarrow> sellersPost now d sbody =
              (d \<lparr> sellers := sellers d @
                      [\<lparr> s_id = nextId (map s_id (sellers d)), s_name = sname,
                         s_barcode = scode, s_created_at = now \<rparr>] \<rparr>,
               Inr \<lparr> s_id = nextId (map s_id (sellers d)), s_name = sname,
                     s_barcode = scode, s_created_at = now \<rparr>)"
    unfolding sname_def scode_def by (simp add: sellersPost_def Let_def)
  have c2: "sellersPost now d sbody = (d2, Inr s)
        \<longrightarrow> sellers d2 = sellers d @ [s] \<and> s_id s = nextId (map s_id (sellers d))"
    by (auto simp: sellersPost_def Let_def split: if_splits)
  have p3: "(if given (in_qty ibody) then js_parseInt (in_qty ibody) else Some 0) = Some qi
        \<and> 0 < qi \<and> icode \<noteq> [] \<and> findIndex (\<lambda>x. b_barcode x = icode) (books d) = Some i
        \<longrightarrow> (\<exists>d' x m. stockIn now d ibody = (d', Inr x)
                 \<and> stockMovements d' = stockMovements d @ [m]
                 \<and> m_id m = nextId (map m_id (stockMovements d))
                 \<and> m_type m = TypeIn \<and> m_bookBarcode m = icode \<and> m_qty m = qi)"
    unfolding icode_def by (simp add: stockIn_def Let_def)
  have c3: "stockIn now d ibody = (d3, Inr b3)
        \<longrightarrow> (\<exists>m. stockMovements d3 = stockMovements d @ [m]
                 \<and> m_id m = nextId (map m_id (stockMovements d)))"
    by (auto simp: stockIn_def Let_def split: if_splits option.splits)
  have p4: "(if given (sale_qty ubody) then js_parseInt (sale_qty ubody) else Some 0) = Some qu
        \<and> 0 < qu \<and> ucode \<noteq> [] \<and> useller \<noteq> []
        \<and> findIndex (\<lambda>x. b_barcode x = ucode) (books d) = Some k
        \<and> findIndex (\<lambda>x. s_barcode x = useller) (sellers d) = Some j
        \<and> qu \<le> b_current_qty (books d ! k)
        \<longrightarrow> (\<exists>d' r m x. stockSale now d ubody = (d', Inr r)
                 \<and> stockMovements d' = stockMovements d @ [m]
                 \<and> m_id m = nextId (map m_id (stockMovements d))
                 \<and> m_type m = TypeOut \<and> m_bookBarcode m = ucode \<and> m_qty m = qu
                 \<and> sales d' = sales d @ [x] \<and> sl_id x = nextId (map sl_id (sales d))
                 \<and> sl_bookBarcode x = ucode \<and> sl_sellerBarcode x = useller \<and> sl_qty x = qu)"
    unfolding ucode_def useller_def by (simp add: stockSale_def Let_def)
  have c4: "stockSale now d ubody = (d4, Inr r4)
        \<longrightarrow> (\<exists>m x. stockMovements d4 = stockMovements d @ [m]
                 \<and> m_id m = nextId (map m_id (stockMovements d))
                 \<and> sales d4 = sales d @ [x] \<and> sl_id x = nextId (map sl_id (sales d)))"
    by (auto simp: stockSale_def Let_def split: if_splits option.splits)
  have p5: "qseller \<noteq> [] \<and> qk_items qbody = Some items \<and> items \<noteq> []
        \<and> findIndex (\<lambda>x. s_barcode x = qseller) (sellers d) = Some l
        \<and> validateItems (books d) 0 items = Inr ns
        \<longrightarrow> (\<exists>d' r ms ss. salesQuick now d qbody = (d', Inr r)
                 \<and> stockMovements d' = stockMovements d @ ms
                 \<and> allocated (map m_id (stockMovements d)) (map m_id ms)
                 \<and> sales d' = sales d @ ss
                 \<and> allocated (map sl_id (sales d)) (map sl_id ss)
                 \<and> length ms = length items \<and> length ss = length items)"
  proof
    assume a: "qseller \<noteq> [] \<and> qk_items qbody = Some items \<and> items \<noteq> []
        \<and> findIndex (\<lambda>x. s_barcode x = qseller) (sellers d) = Some l
        \<and> validateItems (books d) 0 items = Inr ns"
    let ?st = "fold (applyItem now (s_name (sellers d ! l)) qseller) ns ?qst"
    from a have v: "validateItems (books d) 0 items = Inr ns" by simp
    from a have run: "salesQuick now d qbody =
        (d \<lparr> books := qs_books ?st, stockMovements := qs_movements ?st, sales := qs_sales ?st \<rparr>,
         Inr \<lparr> q_totalAmount = qs_totalAmount ?st, q_totalQty = qs_totalQty ?st,
               q_itemsCount = length ns \<rparr>)"
      unfolding qseller_def by (simp add: salesQuick_def Let_def)
    from quick [of "s_name (sellers d ! l)" qseller ns] obtain ms ss where
      "qs_movements ?st = stockMovements d @ ms"
      "allocated (map m_id (stockMovements d)) (map m_id ms)"
      "qs_sales ?st = sales d @ ss" "allocated (map sl_id (sales d)) (map sl_id ss)"
      "length ms = length ns" "length ss = length ns"
      by auto
    with run validateItems_length [OF v]
    show "\<exists>d' r ms ss. salesQuick now d qbody = (d', Inr r)
                 \<and> stockMovements d' = stockMovements d @ ms
                 \<and> allocated (map m_id (stockMovements d)) (map m_id ms)
                 \<and> sales d' = sales d @ ss
                 \<and> allocated (map sl_id (sales d)) (map sl_id ss)
                 \<and> length ms = length items \<and> length ss = length items"
      by simp
  qed
  have c5: "salesQuick now d qbody = (d5, Inr r5)
        \<longrightarrow> (\<exists>ms ss. stockMovements d5 = stockMovements d @ ms
                 \<and> allocated (map m_id (stockMovements d)) (map m_id ms)
                 \<and> sales d5 = sales d @ ss
                 \<and> allocated (map sl_id (sales d)) (map sl_id ss)
                 \<and> length ms = q_itemsCount r5 \<and> length ss = q_itemsCount r5)"
  proof
    assume "salesQuick now d qbody = (d5, Inr r5)"
    then obtain sc sn xs where
      d5: "stockMovements d5 = qs_movements (fold (applyItem now sn sc) xs ?qst)"
          "sales d5 = qs_sales (fold (applyItem now sn sc) xs ?qst)"
      and r5: "q_itemsCount r5 = length xs"
      by (auto simp: salesQuick_def Let_def split: if_splits option.splits sum.splits)
    with quick [of sn sc xs] show "\<exists>ms ss. stockMovements d5 = stockMovements d @ ms
                 \<and> allocated (map m_id (stockMovements d)) (map m_id ms)
                 \<and> sales d5 = sales d @ ss
                 \<and> allocated (map sl_id (sales d)) (map sl_id ss)
                 \<and> length ms = q_itemsCount r5 \<and> length ss = q_itemsCount r5"
      by auto
  qed
  have p6: "rows = Some rs
        \<longrightarrow> (\<exists>d' r bs ms. importBooksTsv clock d rows = (d', Inr r)
                 \<and> books d' = books d @ bs
                 \<and> allocated (map b_id (books d)) (map b_id bs)
                 \<and> length bs = ir_insertedCount r
                 \<and> stockMovements d' = stockMovements d @ ms
                 \<and> allocated (map m_id (stockMovements d)) (map m_id ms)
                 \<and> length ms = length (filter (\<lambda>x. 0 < b_initial_qty x) bs))"
  proof
    assume rows: "rows = Some rs"
    let ?st = "importRows clock 0 rs ?ist"
    have run: "importBooksTsv clock d rows =
        (d \<lparr> books := im_books ?st, stockMovements := im_movements ?st \<rparr>,
         Inr \<lparr> ir_insertedCount = im_insertedCount ?st,
               ir_skippedExisting = im_skippedExisting ?st, ir_errors = im_errors ?st \<rparr>)"
      using rows by (simp add: importBooksTsv_def Let_def)
    from imp [of rs] obtain bs ms where
      bs: "im_books ?st = books d @ bs" "allocated (map b_id (books d)) (map b_id bs)"
      and ms: "im_movements ?st = stockMovements d @ ms"
        "allocated (map m_id (stockMovements d)) (map m_id ms)"
      by auto
    from importRows_inserted [of clock 0 rs ?ist] bs(1) ms(1)
    have "length bs = im_insertedCount ?st"
      "length ms = length (filter (\<lambda>x. 0 < b_initial_qty x) bs)"
      by simp_all
    with run bs ms
    show "\<exists>d' r bs ms. importBooksTsv clock d rows = (d', Inr r)
                 \<and> books d' = books d @ bs
                 \<and> allocated (map b_id (books d)) (map b_id bs)
                 \<and> length bs = ir_insertedCount r
                 \<and> stockMovements d' = stockMovements d @ ms
                 \<and> allocated (map m_id (stockMovements d)) (map m_id ms)
                 \<and> length ms = length (filter (\<lambda>x. 0 < b_initial_qty x) bs)"
      by simp
  qed
  have c6: "importBooksTsv clock d rows = (d6, Inr r6)
        \<longrightarrow> (\<exists>bs ms. books d6 = books d @ bs
                 \<and> allocated (map b_id (books d)) (map b_id bs)
                 \<and> stockMovements d6 = stockMovements d @ ms
                 \<and> allocated (map m_id (stockMovements d)) (map m_id ms))"
  proof
    assume a: "importBooksTsv clock d rows = (d6, Inr r6)"
    then obtain xs where rows: "rows = Some xs"
      by (cases rows) (auto simp: importBooksTsv_def)
    with a imp [of xs] show "\<exists>bs ms. books d6 = books d @ bs
                 \<and> allocated (map b_id (books d)) (map b_id bs)
                 \<and> stockMovements d6 = stockMovements d @ ms
                 \<and> allocated (map m_id (stockMovements d)) (map m_id ms)"
      by (auto simp: importBooksTsv_def Let_def)
  qed
  show ?thesis
    by (intro conjI) (rule nextId_Max p1 c1 p2 c2 p3 c3 p4 c4 p5 c5 p6 c6)+
qed

text \<open>
  Every handler run once. The second book of the example shop, with the largest identifier,
  is deleted, and the book created next gets its identifier 2 again; a book created with a
  generated bar code in the full shop gets 3. A seller registered in the shop gets 2, and
  1 in an empty snapshot. In a shop whose only movement has the identifier 7, incoming
  stock and a sale each record a movement 8, the sale being the first; a sale of two items
  and an import of three rows, one of them of an existing book, allocate one after another.
\<close>

theorem next_identifier_witness:
  "booksDelete ex_shop (Some [JNum 2]) = (ex_shop \<lparr> books := [ex_bookA] \<rparr>, Inr 1)
   \<and> (\<exists>x. booksPost [] (ex_shop \<lparr> books := [ex_bookA] \<rparr>)
             (ex_create (JStr ''C'') (JStr ''Gamma'') JUndefined JUndefined)
           = Some (ex_shop \<lparr> books := [ex_bookA, x] \<rparr>, Inr x)
         \<and> b_id x = 2 \<and> b_barcode x = ''C'')
   \<and> (\<exists>x. booksPost [(1712345678901, 42)] ex_shop
             (ex_create JUndefined (JStr ''Gamma'') JUndefined JUndefined)
           = Some (ex_shop \<lparr> books := [ex_bookA, ex_bookB, x] \<rparr>, Inr x)
         \<and> b_id x = 3 \<and> b_barcode x = ''B45678901042'')
   \<and> sellersPost ''t1'' ex_shop \<lparr> sb_name = JStr '' Tom '', sb_barcode = JStr ''T'' \<rparr>
      = (ex_shop \<lparr> sellers := [ex_seller,
            \<lparr> s_id = 2, s_name = ''Tom'', s_barcode = ''T'', s_created_at = ''t1'' \<rparr>] \<rparr>,
         Inr \<lparr> s_id = 2, s_name = ''Tom'', s_barcode = ''T'', s_created_at = ''t1'' \<rparr>)
   \<and> sellersPost ''t1'' emptyDb \<lparr> sb_name = JStr ''Tom'', sb_barcode = JNum 5 \<rparr>
      = (emptyDb \<lparr> sellers :=
            [\<lparr> s_id = 1, s_name = ''Tom'', s_barcode = ''5'', s_created_at = ''t1'' \<rparr>] \<rparr>,
         Inr \<lparr> s_id = 1, s_name = ''Tom'', s_barcode = ''5'', s_created_at = ''t1'' \<rparr>)
   \<and> (\<exists>d' x m. stockIn ''t1'' ex_moved
                   \<lparr> in_barcode = JStr ''A'', in_qty = JNum 4, in_note = JUndefined \<rparr>
                 = (d', Inr x)
         \<and> stockMovements d' = stockMovements ex_moved @ [m] \<and> m_id m = 8 \<and> m_qty m = 4)
   \<and> (\<exists>d' r m x. stockSale ''t1'' ex_moved (ex_sale ''A'' 2) = (d', Inr r)
         \<and> stockMovements d' = stockMovements ex_moved @ [m] \<and> m_id m = 8 \<and> m_qty m = 2
         \<and> sales d' = [x] \<and> sl_id x = 1 \<and> sl_qty x = 2)
   \<and> (\<exists>d' r ms ss. salesQuick ''t1'' ex_moved (ex_quick [(''A'', 2), (''A'', 1)]) = (d', Inr r)
         \<and> stockMovements d' = stockMovements ex_moved @ ms
         \<and> allocated [7] (map m_id ms) \<and> length ms = 2
         \<and> sales d' = ss \<and> allocated [] (map sl_id ss) \<and> length ss = 2)
   \<and> (\<exists>d' r bs ms. importBooksTsv (\<lambda>k. ''t1'') ex_moved
                       (Some [Some (ex_row (JStr ''N'') (JStr ''New'') (JNum 7) (JNum 2)),
                              Some (ex_row (JStr ''A'') (JStr ''Again'') (JNum 7) (JNum 2)),
                              Some (ex_row (JStr ''M'') (JStr ''More'') JUndefined JUndefined)])
                     = (d', Inr r)
         \<and> books d' = [ex_bookA, ex_bookB] @ bs \<and> allocated [1, 2] (map b_id bs)
         \<and> length bs = 2 \<and> ir_insertedCount r = 2
         \<and> stockMovements d' = stockMovements ex_moved @ ms \<and> allocated [7] (map m_id ms)
         \<and> length ms = length (filter (\<lambda>x. 0 < b_initial_qty x) bs))"
proof -
  let ?d = "ex_shop \<lparr> books := [ex_bookA] \<rparr>"
  let ?body = "ex_create (JStr ''C'') (JStr ''Gamma'') JUndefined JUndefined"
  let ?body' = "ex_create JUndefined (JStr ''Gamma'') JUndefined JUndefined"
  let ?f = "\<lparr> f_barcode = ''C'', f_title = ''Gamma'', f_author = [], f_publisher = [],
              f_shelf = [], f_price = Num 0, f_initialQty = 0 \<rparr>"
  let ?sb = "\<lparr> sb_name = JStr '' Tom '', sb_barcode = JStr ''T'' \<rparr>"
  let ?sb' = "\<lparr> sb_name = JStr ''Tom'', sb_barcode = JNum 5 \<rparr>"
  let ?ib = "\<lparr> in_barcode = JStr ''A'', in_qty = JNum 4, in_note = JUndefined \<rparr>"
  let ?qb = "ex_quick [(''A'', 2), (''A'', 1)]"
  let ?rows = "[Some (ex_row (JStr ''N'') (JStr ''New'') (JNum 7) (JNum 2)),
                Some (ex_row (JStr ''A'') (JStr ''Again'') (JNum 7) (JNum 2)),
                Some (ex_row (JStr ''M'') (JStr ''More'') JUndefined JUndefined)]"
  note c2 = conjunct2
  have 1: "booksDelete ex_shop (Some [JNum 2]) = (?d, Inr 1)"
    by (simp add: booksDelete_def js_eval ex_defs)
  have pre2: "\<not> truthy (bk_id ?body) \<and> parseBookFields ?body = Inr ?f
        \<and> (f_barcode ?f \<noteq> [] \<and> (\<forall>x \<in> set (books ?d). b_barcode x \<noteq> f_barcode ?f)
               \<and> ''C'' = f_barcode ?f
             \<or> f_barcode ?f = [] \<and> genCode [] (books ?d) = Some ''C'')"
    by (simp add: parseBookFields_def js_eval ex_defs)
  have 2: "\<exists>x. booksPost [] ?d ?body = Some (ex_shop \<lparr> books := [ex_bookA, x] \<rparr>, Inr x)
         \<and> b_id x = 2 \<and> b_barcode x = ''C''"
    using next_identifier [where body = ?body and f = ?f and d = ?d and gen = "[]"
        and c = "''C''", THEN c2, THEN conjunct1, rule_format, OF pre2]
    by (simp add: ex_defs)
  have pre3: "\<not> truthy (bk_id ?body') \<and> parseBookFields ?body' = Inr (?f \<lparr> f_barcode := [] \<rparr>)
        \<and> (f_barcode (?f \<lparr> f_barcode := [] \<rparr>) \<noteq> []
               \<and> (\<forall>x \<in> set (books ex_shop). b_barcode x \<noteq> f_barcode (?f \<lparr> f_barcode := [] \<rparr>))
               \<and> ''B45678901042'' = f_barcode (?f \<lparr> f_barcode := [] \<rparr>)
             \<or> f_barcode (?f \<lparr> f_barcode := [] \<rparr>) = []
               \<and> genCode [(1712345678901, 42)] (books ex_shop) = Some ''B45678901042'')"
    by (simp add: parseBookFields_def newCode_def last8_def padStart3_def js_eval ex_defs)
      (simp add: numeral_2_eq_2 numeral_3_eq_3)?
  have 3: "\<exists>x. booksPost [(1712345678901, 42)] ex_shop ?body'
           = Some (ex_shop \<lparr> books := [ex_bookA, ex_bookB, x] \<rparr>, Inr x)
         \<and> b_id x = 3 \<and> b_barcode x = ''B45678901042''"
    using next_identifier [where body = ?body' and f = "?f \<lparr> f_barcode := [] \<rparr>" and d = ex_shop
        and gen = "[(1712345678901, 42)]" and c = "''B45678901042''",
        THEN c2, THEN conjunct1, rule_format, OF pre3]
    by (simp add: ex_defs)
  have pre4: "(if truthy (sb_name ?sb) then trim (js_String (sb_name ?sb)) else []) \<noteq> []
      \<and> (if truthy (sb_barcode ?sb) then trim (js_String (sb_barcode ?sb)) else []) \<noteq> []
      \<and> (\<forall>x \<in> set (sellers ex_shop). s_barcode x \<noteq>
            (if truthy (sb_barcode ?sb) then trim (js_String (sb_barcode ?sb)) else []))"
    by (simp add: js_eval ex_defs)
  have 4: "sellersPost ''t1'' ex_shop ?sb
      = (ex_shop \<lparr> sellers := [ex_seller,
            \<lparr> s_id = 2, s_name = ''Tom'', s_barcode = ''T'', s_created_at = ''t1'' \<rparr>] \<rparr>,
         Inr \<lparr> s_id = 2, s_name = ''Tom'', s_barcode = ''T'', s_created_at = ''t1'' \<rparr>)"
    using next_identifier [where sbody = ?sb and d = ex_shop and now = "''t1''",
        THEN c2, THEN c2, THEN c2, THEN conjunct1, rule_format, OF pre4]
    by (simp add: js_eval ex_defs)
  have pre5: "(if truthy (sb_name ?sb') then trim (js_String (sb_name ?sb')) else []) \<noteq> []
      \<and> (if truthy (sb_barcode ?sb') then trim (js_String (sb_barcode ?sb')) else []) \<noteq> []
      \<and> (\<forall>x \<in> set (sellers emptyDb). s_barcode x \<noteq>
            (if truthy (sb_barcode ?sb') then trim (js_String (sb_barcode ?sb')) else []))"
    by (simp add: js_eval ex_defs)
  have 5: "sellersPost ''t1'' emptyDb ?sb'
      = (emptyDb \<lparr> sellers :=
            [\<lparr> s_id = 1, s_name = ''Tom'', s_barcode = ''5'', s_created_at = ''t1'' \<rparr>] \<rparr>,
         Inr \<lparr> s_id = 1, s_name = ''Tom'', s_barcode = ''5'', s_created_at = ''t1'' \<rparr>)"
    using next_identifier [where sbody = ?sb' and d = emptyDb and now = "''t1''",
        THEN c2, THEN c2, THEN c2, THEN conjunct1, rule_format, OF pre5]
    by (simp add: js_eval ex_defs)
  have pre6: "(if given (in_qty ?ib) then js_parseInt (in_qty ?ib) else Some 0) = Some 4
        \<and> (0::int) < 4
        \<and> (if truthy (in_barcode ?ib) then trim (js_String (in_barcode ?ib)) else []) \<noteq> []
        \<and> findIndex (\<lambda>x. b_barcode x =
              (if truthy (in_barcode ?ib) then trim (js_String (in_barcode ?ib)) else []))
            (books ex_moved) = Some 0"
    by (simp add: js_eval ex_defs ex_moved_def)
  have next8: "map m_id (stockMovements ex_moved) = [7]" "nextId [7] = 8"
    "sales ex_moved = []" "map sl_id ([] :: sale list) = []" "nextId [] = 1"
    "books ex_moved = [ex_bookA, ex_bookB]" "map b_id [ex_bookA, ex_bookB] = [1, 2]"
    by (simp_all add: ex_defs ex_moved_def)
  have 6: "\<exists>d' x m. stockIn ''t1'' ex_moved ?ib = (d', Inr x)
         \<and> stockMovements d' = stockMovements ex_moved @ [m] \<and> m_id m = 8 \<and> m_qty m = 4"
    using next_identifier [where ibody = ?ib and d = ex_moved and now = "''t1''" and qi = 4
        and i = 0, THEN c2, THEN c2, THEN c2, THEN c2, THEN c2, THEN conjunct1, rule_format,
        OF pre6]
    unfolding next8 by blast
  have pre7: "(if given (sale_qty (ex_sale ''A'' 2)) then js_parseInt (sale_qty (ex_sale ''A'' 2))
               else Some 0) = Some 2
        \<and> (0::int) < 2
        \<and> (if truthy (sale_bookBarcode (ex_sale ''A'' 2))
            then trim (js_String (sale_bookBarcode (ex_sale ''A'' 2))) else []) \<noteq> []
        \<and> (if truthy (sale_sellerBarcode (ex_sale ''A'' 2))
            then trim (js_String (sale_sellerBarcode (ex_sale ''A'' 2))) else []) \<noteq> []
        \<and> findIndex (\<lambda>x. b_barcode x =
              (if truthy (sale_bookBarcode (ex_sale ''A'' 2))
               then trim (js_String (sale_bookBarcode (ex_sale ''A'' 2))) else []))
            (books ex_moved) = Some 0
        \<and> findIndex (\<lambda>x. s_barcode x =
              (if truthy (sale_sellerBarcode (ex_sale ''A'' 2))
               then trim (js_String (sale_sellerBarcode (ex_sale ''A'' 2))) else []))
            (sellers ex_moved) = Some 0
        \<and> 2 \<le> b_current_qty (books ex_moved ! 0)"
    by (simp add: js_eval ex_defs ex_moved_def)
  have 7: "\<exists>d' r m x. stockSale ''t1'' ex_moved (ex_sale ''A'' 2) = (d', Inr r)
         \<and> stockMovements d' = stockMovements ex_moved @ [m] \<and> m_id m = 8 \<and> m_qty m = 2
         \<and> sales d' = [x] \<and> sl_id x = 1 \<and> sl_qty x = 2"
    using next_identifier [where ubody = "ex_sale ''A'' 2" and d = ex_moved and now = "''t1''"
        and qu = 2 and k = 0 and j = 0,
        THEN c2, THEN c2, THEN c2, THEN c2, THEN c2, THEN c2, THEN c2, THEN conjunct1,
        rule_format, OF pre7]
    unfolding next8 append_Nil by blast
  have pre8: "(if truthy (qk_sellerBarcode ?qb) then trim (js_String (qk_sellerBarcode ?qb))
               else []) \<noteq> []
        \<and> qk_items ?qb = Some [Some \<lparr> it_barcode = JStr ''A'', it_qty = JNum 2 \<rparr>,
                               Some \<lparr> it_barcode = JStr ''A'', it_qty = JNum 1 \<rparr>]
        \<and> [Some \<lparr> it_barcode = JStr ''A'', it_qty = JNum 2 \<rparr>,
            Some \<lparr> it_barcode = JStr ''A'', it_qty = JNum 1 \<rparr>] \<noteq> []
        \<and> findIndex (\<lambda>x. s_barcode x =
              (if truthy (qk_sellerBarcode ?qb) then trim (js_String (qk_sellerBarcode ?qb))
               else [])) (sellers ex_moved) = Some 0
        \<and> validateItems (books ex_moved) 0
              [Some \<lparr> it_barcode = JStr ''A'', it_qty = JNum 2 \<rparr>,
               Some \<lparr> it_barcode = JStr ''A'', it_qty = JNum 1 \<rparr>]
            = Inr [\<lparr> n_book = 0, n_barcode = ''A'', n_qty = 2 \<rparr>,
                   \<lparr> n_book = 0, n_barcode = ''A'', n_qty = 1 \<rparr>]"
    by (simp add: itemBarcode_def itemQty_def js_eval ex_defs ex_moved_def)
  have 8: "\<exists>d' r ms ss. salesQuick ''t1'' ex_moved ?qb = (d', Inr r)
         \<and> stockMovements d' = stockMovements ex_moved @ ms
         \<and> allocated [7] (map m_id ms) \<and> length ms = 2
         \<and> sales d' = ss \<and> allocated [] (map sl_id ss) \<and> length ss = 2"
    using next_identifier [where qbody = ?qb and d = ex_moved and now = "''t1''" and l = 0,
        THEN c2, THEN c2, THEN c2, THEN c2, THEN c2, THEN c2, THEN c2, THEN c2, THEN c2,
        THEN conjunct1, rule_format, OF pre8]
    unfolding next8 append_Nil by (auto simp: numeral_2_eq_2)
  have count: "ir_insertedCount (projr (snd (importBooksTsv (\<lambda>k. ''t1'') ex_moved (Some ?rows))))
               = 2"
    by (simp add: importBooksTsv_def importRow_def row_defs js_eval ex_defs ex_moved_def)
  have 9: "\<exists>d' r bs ms. importBooksTsv (\<lambda>k. ''t1'') ex_moved (Some ?rows) = (d', Inr r)
         \<and> books d' = [ex_bookA, ex_bookB] @ bs \<and> allocated [1, 2] (map b_id bs)
         \<and> length bs = 2 \<and> ir_insertedCount r = 2
         \<and> stockMovements d' = stockMovements ex_moved @ ms \<and> allocated [7] (map m_id ms)
         \<and> length ms = length (filter (\<lambda>x. 0 < b_initial_qty x) bs)"
    using next_identifier [where rows = "Some ?rows" and rs = ?rows and d = ex_moved
        and clock = "\<lambda>k. ''t1''",
        THEN c2, THEN c2, THEN c2, THEN c2, THEN c2, THEN c2, THEN c2, THEN c2, THEN c2,
        THEN c2, THEN c2, THEN conjunct1, rule_format, OF refl] count
    unfolding next8 by auto
  show ?thesis by (intro conjI) (rule 1 2 3 4 5 6 7 8 9)+
qed

subsection \<open>Import\<close>





subsection \<open>Quantities and movements\<close>




end
